theory Spec2Isabelle
  imports Complex_Main "HOL-Library.Multiset"
begin

section \<open>Data model: the four tables of \<^verbatim>\<open>init_db\<close>\<close>

text \<open>
  Each table of the schema is a list of rows, in insertion order. Columns keep the
  schema's names behind a table prefix, since the same column name occurs in several
  tables. \<^verbatim>\<open>INTEGER\<close> columns are \<open>int\<close>, \<^verbatim>\<open>TEXT\<close> columns are
  \<open>string\<close>; the two \<^verbatim>\<open>REAL\<close> columns are taken as real numbers (the
  non-finite floating-point values and rounding are outside this model).
\<close>

record person =
  p_id :: int
  p_name :: string

record unit_row =
  u_id :: int
  u_name :: string

record position =
  pos_id :: int
  pos_code :: string
  pos_description :: string
  pos_unit :: int

record contract =
  c_id :: int
  c_person :: int
  c_position :: int
  c_unit :: int
  c_start :: string
  c_end :: string
  c_years :: int
  c_salary :: real
  c_cap_hit :: real

text \<open>
  The database. \<open>contract_seq\<close> is the \<^verbatim>\<open>sqlite_sequence\<close> entry of the
  \<^verbatim>\<open>AUTOINCREMENT\<close> key of \<^verbatim>\<open>contracts\<close>: the largest key ever handed out.
\<close>

record store =
  people :: "person list"
  units :: "unit_row list"
  positions :: "position list"
  contracts :: "contract list"
  contract_seq :: int

text \<open>The exceptions that the modelled code raises or that the store raises into it.\<close>

datatype exn =
  ValueError string
| IntegrityError string
| OverflowError string
| OperationalError string

text \<open>
  An \<^verbatim>\<open>INTEGER\<close> of the store is a signed 64-bit integer, a Python \<^verbatim>\<open>int\<close> is
  unbounded. Binding a Python \<^verbatim>\<open>int\<close> outside the 64-bit range to a \<^verbatim>\<open>?\<close>
  placeholder raises \<^verbatim>\<open>OverflowError\<close> before the statement runs. The identifiers that
  reach a unit of work from the request (\<^verbatim>\<open>int(...)\<close> of a form field, the route's
  \<^verbatim>\<open><int:...>\<close> converter) and the identifier the allocator computes are such
  unbounded integers; a value that a statement read from an \<^verbatim>\<open>INTEGER\<close> column is
  in range and is bound without a check.
\<close>

definition sqlite_int :: "int \<Rightarrow> bool" where
  "sqlite_int n = (- (2 ^ 63) \<le> n \<and> n < 2 ^ 63)"

definition int_too_large :: exn where
  "int_too_large = OverflowError ''Python int too large to convert to SQLite INTEGER''"

section \<open>Identity allocator (inside \<^verbatim>\<open>create_contract.work\<close>)\<close>

text \<open>
  \<^verbatim>\<open>
  next_id = 1
  for pid in existing_ids:
      if pid == next_id: next_id += 1
      elif pid > next_id: break
  \<close>
  The loop over the fetched identifiers, with the candidate as accumulator. An
  identifier below the candidate takes neither branch and the loop goes on.
\<close>

fun scan_ids :: "int \<Rightarrow> int list \<Rightarrow> int" where
  "scan_ids next_id [] = next_id"
| "scan_ids next_id (pid # rest) =
     (if pid = next_id then scan_ids (next_id + 1) rest
      else if pid > next_id then next_id
      else scan_ids next_id rest)"

text \<open>\<^verbatim>\<open>SELECT person_id FROM people ORDER BY person_id\<close>\<close>

definition existing_ids :: "store \<Rightarrow> int list" where
  "existing_ids s = sort (map p_id (people s))"

definition next_person_id :: "store \<Rightarrow> int" where
  "next_person_id s = scan_ids 1 (existing_ids s)"

section \<open>The statements the units of work execute\<close>

text \<open>
  Every connection runs \<^verbatim>\<open>PRAGMA foreign_keys = ON\<close>, so a statement that would leave a
  row referring to a missing parent, or remove a parent that is still referred to, fails
  with \<^verbatim>\<open>sqlite3.IntegrityError\<close> and changes nothing. A statement is a function from
  the store to the exception or to the store after it; a query is the exception or the
  rows it fetched.
\<close>

definition fk_failed :: exn where
  "fk_failed = IntegrityError ''FOREIGN KEY constraint failed''"

text \<open>
  The validated payload as a unit of work reads it. The route runs the unit of work
  only when validation reported no error, and then every field below holds a value;
  of \<open>pl_person_name\<close> and \<open>pl_person_id\<close> creation reads the first and editing
  the second.
\<close>

record payload =
  pl_person_name :: string
  pl_person_id :: int
  pl_position_id :: int
  pl_unit_id :: int
  pl_start_date :: string
  pl_end_date :: string
  pl_years :: int
  pl_salary_millions :: real
  pl_cap_hit_millions :: real

text \<open>\<^verbatim>\<open>INSERT INTO people (person_id, name) VALUES (?, ?)\<close>; \<open>person_id\<close> is the primary key.\<close>

definition insert_person :: "int \<Rightarrow> string \<Rightarrow> store \<Rightarrow> exn + store" where
  "insert_person pid nm s =
     (if \<not> sqlite_int pid then Inl int_too_large
      else if pid \<in> set (map p_id (people s))
      then Inl (IntegrityError ''UNIQUE constraint failed: people.person_id'')
      else Inr (s\<lparr>people := people s @ [\<lparr>p_id = pid, p_name = nm\<rparr>]\<rparr>))"

text \<open>
  The \<^verbatim>\<open>AUTOINCREMENT\<close> key of a new contract: one more than the largest key in the
  table and the largest key ever handed out. When that is past the largest 64-bit
  integer the store refuses the row (\<^verbatim>\<open>SQLITE_FULL\<close>).
\<close>

definition next_contract_id :: "store \<Rightarrow> int" where
  "next_contract_id s = foldr max (map c_id (contracts s)) (contract_seq s) + 1"

definition store_full :: exn where
  "store_full = OperationalError ''database or disk is full''"

definition refs_ok :: "store \<Rightarrow> int \<Rightarrow> int \<Rightarrow> int \<Rightarrow> bool" where
  "refs_ok s person_id position_id unit_id =
     (person_id \<in> set (map p_id (people s)) \<and>
      position_id \<in> set (map pos_id (positions s)) \<and>
      unit_id \<in> set (map u_id (units s)))"

text \<open>\<^verbatim>\<open>INSERT INTO contracts (person_id, position_id, unit_id, ...) VALUES (?, ...)\<close>\<close>

definition insert_contract :: "int \<Rightarrow> payload \<Rightarrow> store \<Rightarrow> exn + store" where
  "insert_contract person_id pl s =
     (if \<not> (sqlite_int person_id \<and> sqlite_int (pl_position_id pl) \<and>
             sqlite_int (pl_unit_id pl) \<and> sqlite_int (pl_years pl))
      then Inl int_too_large
      else if \<not> sqlite_int (next_contract_id s) then Inl store_full
      else if \<not> refs_ok s person_id (pl_position_id pl) (pl_unit_id pl) then Inl fk_failed
      else Inr (s\<lparr>contracts := contracts s @
                  [\<lparr>c_id = next_contract_id s, c_person = person_id,
                    c_position = pl_position_id pl, c_unit = pl_unit_id pl,
                    c_start = pl_start_date pl, c_end = pl_end_date pl,
                    c_years = pl_years pl, c_salary = pl_salary_millions pl,
                    c_cap_hit = pl_cap_hit_millions pl\<rparr>],
                contract_seq := next_contract_id s\<rparr>))"

text \<open>\<^verbatim>\<open>UPDATE contracts SET person_id = ?, ..., cap_hit_millions = ? WHERE contract_id = ?\<close>\<close>

definition set_contract :: "payload \<Rightarrow> contract \<Rightarrow> contract" where
  "set_contract pl c =
     c\<lparr>c_person := pl_person_id pl, c_position := pl_position_id pl, c_unit := pl_unit_id pl,
       c_start := pl_start_date pl, c_end := pl_end_date pl, c_years := pl_years pl,
       c_salary := pl_salary_millions pl, c_cap_hit := pl_cap_hit_millions pl\<rparr>"

definition update_contract :: "int \<Rightarrow> payload \<Rightarrow> store \<Rightarrow> exn + store" where
  "update_contract contract_id pl s =
     (if \<not> (sqlite_int (pl_person_id pl) \<and> sqlite_int (pl_position_id pl) \<and>
             sqlite_int (pl_unit_id pl) \<and> sqlite_int (pl_years pl) \<and> sqlite_int contract_id)
      then Inl int_too_large
      else if contract_id \<notin> set (map c_id (contracts s)) then Inr s
      else if \<not> refs_ok s (pl_person_id pl) (pl_position_id pl) (pl_unit_id pl) then Inl fk_failed
      else Inr (s\<lparr>contracts :=
                  map (\<lambda>c. if c_id c = contract_id then set_contract pl c else c) (contracts s)\<rparr>))"

text \<open>\<^verbatim>\<open>SELECT person_id FROM contracts WHERE contract_id = ?\<close> and \<^verbatim>\<open>fetchone()\<close>\<close>

definition select_contract_person :: "store \<Rightarrow> int \<Rightarrow> exn + int option" where
  "select_contract_person s contract_id =
     (if \<not> sqlite_int contract_id then Inl int_too_large
      else Inr (map_option c_person (find (\<lambda>c. c_id c = contract_id) (contracts s))))"

text \<open>
  \<^verbatim>\<open>SELECT DISTINCT person_id FROM contracts WHERE unit_id = ?\<close> and
  \<^verbatim>\<open>... WHERE position_id = ?\<close>
\<close>

definition select_persons_of_unit :: "store \<Rightarrow> int \<Rightarrow> exn + int list" where
  "select_persons_of_unit s unit_id =
     (if \<not> sqlite_int unit_id then Inl int_too_large
      else Inr (remdups (map c_person (filter (\<lambda>c. c_unit c = unit_id) (contracts s)))))"

definition select_persons_of_position :: "store \<Rightarrow> int \<Rightarrow> exn + int list" where
  "select_persons_of_position s position_id =
     (if \<not> sqlite_int position_id then Inl int_too_large
      else Inr (remdups (map c_person (filter (\<lambda>c. c_position c = position_id) (contracts s)))))"

text \<open>
  \<^verbatim>\<open>DELETE FROM contracts WHERE contract_id = ?\<close>, \<^verbatim>\<open>... WHERE unit_id = ?\<close>,
  \<^verbatim>\<open>... WHERE position_id = ?\<close>; nothing refers to a contract.
\<close>

definition delete_contract_row :: "int \<Rightarrow> store \<Rightarrow> exn + store" where
  "delete_contract_row contract_id s =
     (if \<not> sqlite_int contract_id then Inl int_too_large
      else Inr (s\<lparr>contracts := filter (\<lambda>c. c_id c \<noteq> contract_id) (contracts s)\<rparr>))"

definition delete_contracts_of_unit :: "int \<Rightarrow> store \<Rightarrow> exn + store" where
  "delete_contracts_of_unit unit_id s =
     (if \<not> sqlite_int unit_id then Inl int_too_large
      else Inr (s\<lparr>contracts := filter (\<lambda>c. c_unit c \<noteq> unit_id) (contracts s)\<rparr>))"

definition delete_contracts_of_position :: "int \<Rightarrow> store \<Rightarrow> exn + store" where
  "delete_contracts_of_position position_id s =
     (if \<not> sqlite_int position_id then Inl int_too_large
      else Inr (s\<lparr>contracts := filter (\<lambda>c. c_position c \<noteq> position_id) (contracts s)\<rparr>))"

text \<open>
  \<^verbatim>\<open>SELECT COUNT(*) AS cnt FROM contracts WHERE person_id = ?\<close>, with a
  \<open>person_id\<close> that was read from the store.
\<close>

definition count_contracts_of :: "store \<Rightarrow> int \<Rightarrow> nat" where
  "count_contracts_of s person_id = length (filter (\<lambda>c. c_person c = person_id) (contracts s))"

text \<open>
  \<^verbatim>\<open>DELETE FROM people WHERE person_id = ?\<close>, with a \<open>person_id\<close> that was read
  from the store: refused while a contract refers to the row.
\<close>

definition delete_person :: "int \<Rightarrow> store \<Rightarrow> exn + store" where
  "delete_person person_id s =
     (if person_id \<in> set (map p_id (people s)) \<and> person_id \<in> set (map c_person (contracts s))
      then Inl fk_failed
      else Inr (s\<lparr>people := filter (\<lambda>p. p_id p \<noteq> person_id) (people s)\<rparr>))"

text \<open>\<^verbatim>\<open>DELETE FROM positions WHERE unit_id = ?\<close>: refused while a contract refers to one of the rows.\<close>

definition unit_positions_in_use :: "store \<Rightarrow> int \<Rightarrow> bool" where
  "unit_positions_in_use s unit_id =
     (\<exists>c \<in> set (contracts s).
        c_position c \<in> set (map pos_id (filter (\<lambda>p. pos_unit p = unit_id) (positions s))))"

definition delete_positions_of_unit :: "int \<Rightarrow> store \<Rightarrow> exn + store" where
  "delete_positions_of_unit unit_id s =
     (if \<not> sqlite_int unit_id then Inl int_too_large
      else if unit_positions_in_use s unit_id then Inl fk_failed
      else Inr (s\<lparr>positions := filter (\<lambda>p. pos_unit p \<noteq> unit_id) (positions s)\<rparr>))"

text \<open>\<^verbatim>\<open>DELETE FROM positions WHERE position_id = ?\<close>\<close>

definition delete_position_row :: "int \<Rightarrow> store \<Rightarrow> exn + store" where
  "delete_position_row position_id s =
     (if \<not> sqlite_int position_id then Inl int_too_large
      else if position_id \<in> set (map pos_id (positions s)) \<and>
         position_id \<in> set (map c_position (contracts s))
      then Inl fk_failed
      else Inr (s\<lparr>positions := filter (\<lambda>p. pos_id p \<noteq> position_id) (positions s)\<rparr>))"

text \<open>\<^verbatim>\<open>DELETE FROM units WHERE unit_id = ?\<close>: positions and contracts both refer to units.\<close>

definition delete_unit_row :: "int \<Rightarrow> store \<Rightarrow> exn + store" where
  "delete_unit_row unit_id s =
     (if \<not> sqlite_int unit_id then Inl int_too_large
      else if unit_id \<in> set (map u_id (units s)) \<and>
         (unit_id \<in> set (map pos_unit (positions s)) \<or> unit_id \<in> set (map c_unit (contracts s)))
      then Inl fk_failed
      else Inr (s\<lparr>units := filter (\<lambda>u. u_id u \<noteq> unit_id) (units s)\<rparr>))"

text \<open>
  \<^verbatim>\<open>UPDATE positions SET code = ?, description = ?, unit_id = ? WHERE position_id = ?\<close>:
  \<open>code\<close> is \<^verbatim>\<open>UNIQUE\<close> (no other position may hold it), \<open>unit_id\<close> refers to
  \<open>units\<close>. No row with that key: nothing is checked and nothing changes.
\<close>

definition code_taken :: "store \<Rightarrow> int \<Rightarrow> string \<Rightarrow> bool" where
  "code_taken s position_id code =
     (\<exists>p \<in> set (positions s). pos_id p \<noteq> position_id \<and> pos_code p = code)"

definition update_position :: "int \<Rightarrow> string \<Rightarrow> string \<Rightarrow> int \<Rightarrow> store \<Rightarrow> exn + store" where
  "update_position position_id code description unit_id s =
     (if \<not> (sqlite_int unit_id \<and> sqlite_int position_id) then Inl int_too_large
      else if position_id \<notin> set (map pos_id (positions s)) then Inr s
      else if code_taken s position_id code
      then Inl (IntegrityError ''UNIQUE constraint failed: positions.code'')
      else if unit_id \<notin> set (map u_id (units s)) then Inl fk_failed
      else Inr (s\<lparr>positions :=
                  map (\<lambda>p. if pos_id p = position_id
                           then p\<lparr>pos_code := code, pos_description := description, pos_unit := unit_id\<rparr>
                           else p) (positions s)\<rparr>))"

text \<open>\<^verbatim>\<open>UPDATE contracts SET unit_id = ? WHERE position_id = ?\<close>\<close>

definition update_contracts_unit :: "int \<Rightarrow> int \<Rightarrow> store \<Rightarrow> exn + store" where
  "update_contracts_unit unit_id position_id s =
     (if \<not> (sqlite_int unit_id \<and> sqlite_int position_id) then Inl int_too_large
      else if position_id \<in> set (map c_position (contracts s)) \<and> unit_id \<notin> set (map u_id (units s))
      then Inl fk_failed
      else Inr (s\<lparr>contracts :=
                  map (\<lambda>c. if c_position c = position_id then c\<lparr>c_unit := unit_id\<rparr> else c)
                    (contracts s)\<rparr>))"

section \<open>\<^verbatim>\<open>_position_unit_matches\<close>\<close>

text \<open>
  \<^verbatim>\<open>
  cur = conn.execute("SELECT unit_id FROM positions WHERE position_id = ?", (position_id,))
  row = cur.fetchone()
  return row is not None and int(row["unit_id"]) == int(unit_id)
  \<close>
  Only \<open>position_id\<close> is bound; \<open>unit_id\<close> is compared in Python.
\<close>

definition position_unit_matches :: "store \<Rightarrow> int \<Rightarrow> int \<Rightarrow> exn + bool" where
  "position_unit_matches s position_id unit_id =
     (if \<not> sqlite_int position_id then Inl int_too_large
      else Inr (case find (\<lambda>row. pos_id row = position_id) (positions s) of
                  None \<Rightarrow> False
                | Some row \<Rightarrow> pos_unit row = unit_id))"

section \<open>\<^verbatim>\<open>execute_in_transaction\<close>\<close>

text \<open>
  A unit of work receives the connection, that is the store as the connection sees it,
  and returns \<open>Inr\<close> its result or \<open>Inl\<close> the exception it raised, next to the
  store as its statements left it: the statements that ran before a \<^verbatim>\<open>raise\<close> have taken
  effect on the connection.
\<close>

type_synonym 'a work = "store \<Rightarrow> (exn + 'a) \<times> store"

text \<open>Run one statement and go on with the rest; its exception ends the unit of work.\<close>

definition exec :: "(store \<Rightarrow> exn + store) \<Rightarrow> store \<Rightarrow> 'a work \<Rightarrow> (exn + 'a) \<times> store" where
  "exec stmt s rest = (case stmt s of Inl e \<Rightarrow> (Inl e, s) | Inr s' \<Rightarrow> rest s')"

text \<open>Run one query and go on with what it fetched; its exception ends the unit of work.\<close>

definition query :: "exn + 'b \<Rightarrow> store \<Rightarrow> ('b \<Rightarrow> (exn + 'a) \<times> store) \<Rightarrow> (exn + 'a) \<times> store" where
  "query q s rest = (case q of Inl e \<Rightarrow> (Inl e, s) | Inr rows \<Rightarrow> rest rows)"

text \<open>
  The connection is opened with \<^verbatim>\<open>isolation_level=None\<close>: the driver opens no
  transaction of its own. \<open>durable\<close> is the database file as committed. While no
  transaction is open (\<open>pending = None\<close>) every statement is committed as it runs;
  inside a transaction \<open>pending\<close> holds the uncommitted store that the statements
  read and write.
\<close>

record conn =
  durable :: store
  pending :: "store option"

definition connect :: "store \<Rightarrow> conn" where
  "connect db = \<lparr>durable = db, pending = None\<rparr>"

text \<open>\<^verbatim>\<open>conn.execute("BEGIN IMMEDIATE")\<close>\<close>

definition begin_immediate :: "conn \<Rightarrow> exn + conn" where
  "begin_immediate c =
     (case pending c of
        None \<Rightarrow> Inr (c\<lparr>pending := Some (durable c)\<rparr>)
      | Some _ \<Rightarrow> Inl (OperationalError ''cannot start a transaction within a transaction''))"

text \<open>\<^verbatim>\<open>work(conn)\<close>: outside a transaction what the statements wrote is committed at once.\<close>

definition run_work :: "'a work \<Rightarrow> conn \<Rightarrow> (exn + 'a) \<times> conn" where
  "run_work work c =
     (case pending c of
        None \<Rightarrow> (case work (durable c) of (r, s') \<Rightarrow> (r, c\<lparr>durable := s'\<rparr>))
      | Some s \<Rightarrow> (case work s of (r, s') \<Rightarrow> (r, c\<lparr>pending := Some s'\<rparr>)))"

text \<open>\<^verbatim>\<open>conn.execute("COMMIT")\<close>\<close>

definition commit :: "conn \<Rightarrow> exn + conn" where
  "commit c =
     (case pending c of
        None \<Rightarrow> Inl (OperationalError ''cannot commit - no transaction is active'')
      | Some s \<Rightarrow> Inr \<lparr>durable = s, pending = None\<rparr>)"

text \<open>\<^verbatim>\<open>conn.execute("ROLLBACK")\<close>\<close>

definition rollback :: "conn \<Rightarrow> exn + conn" where
  "rollback c =
     (case pending c of
        None \<Rightarrow> Inl (OperationalError ''cannot rollback - no transaction is active'')
      | Some _ \<Rightarrow> Inr (c\<lparr>pending := None\<rparr>))"

text \<open>\<^verbatim>\<open>conn.close()\<close>: what is not committed is lost; the file stays as committed.\<close>

definition close :: "conn \<Rightarrow> store" where
  "close c = durable c"

text \<open>
  \<^verbatim>\<open>
  except Exception:
      conn.execute("ROLLBACK")
      raise
  finally:
      conn.close()
  \<close>
  The handler re-raises the exception it caught, unless \<^verbatim>\<open>ROLLBACK\<close> itself raises.
\<close>

definition on_exception :: "exn \<Rightarrow> conn \<Rightarrow> (exn + 'a) \<times> store" where
  "on_exception e c =
     (case rollback c of
        Inl e' \<Rightarrow> (Inl e', close c)
      | Inr c' \<Rightarrow> (Inl e, close c'))"

text \<open>
  \<^verbatim>\<open>
  try:
      conn.execute(f"BEGIN {isolation}")
      result = work(conn)
      conn.execute("COMMIT")
      return result
  \<close>
  followed by the handler above. The result is what the caller gets (the value returned
  or the exception raised) and the database as the closed connection leaves it.
\<close>

definition execute_in_transaction :: "'a work \<Rightarrow> store \<Rightarrow> (exn + 'a) \<times> store" where
  "execute_in_transaction work db =
     (let conn = connect db in
      case begin_immediate conn of
        Inl e \<Rightarrow> on_exception e conn
      | Inr conn1 \<Rightarrow>
          (case run_work work conn1 of
             (Inl e, conn2) \<Rightarrow> on_exception e conn2
           | (Inr result, conn2) \<Rightarrow>
               (case commit conn2 of
                  Inl e \<Rightarrow> on_exception e conn2
                | Inr conn3 \<Rightarrow> (Inr result, close conn3))))"

section \<open>The units of work\<close>

text \<open>\<^verbatim>\<open>create_contract.work\<close>: allocate the identifier, insert the person, check the pairing, insert the contract.\<close>

definition create_contract_work :: "payload \<Rightarrow> unit work" where
  "create_contract_work pl s =
     (let next_id = next_person_id s in
      exec (insert_person next_id (pl_person_name pl)) s (\<lambda>s1.
        query (position_unit_matches s1 (pl_position_id pl) (pl_unit_id pl)) s1 (\<lambda>matches.
          if \<not> matches
          then (Inl (ValueError ''Selected position does not belong to selected unit.''), s1)
          else exec (insert_contract next_id pl) s1 (\<lambda>s2. (Inr (), s2)))))"

text \<open>\<^verbatim>\<open>edit_contract.work\<close>\<close>

definition edit_contract_work :: "int \<Rightarrow> payload \<Rightarrow> unit work" where
  "edit_contract_work contract_id pl s =
     query (position_unit_matches s (pl_position_id pl) (pl_unit_id pl)) s (\<lambda>matches.
       if \<not> matches
       then (Inl (ValueError ''Selected position does not belong to selected unit.''), s)
       else exec (update_contract contract_id pl) s (\<lambda>s1. (Inr (), s1)))"

text \<open>\<^verbatim>\<open>delete_contract.work\<close>: an unknown \<open>contract_id\<close> returns before any write.\<close>

definition delete_contract_work :: "int \<Rightarrow> unit work" where
  "delete_contract_work contract_id s =
     query (select_contract_person s contract_id) s (\<lambda>row.
       case row of
         None \<Rightarrow> (Inr (), s)
       | Some person_id \<Rightarrow>
           exec (delete_contract_row contract_id) s (\<lambda>s1.
             let remaining = count_contracts_of s1 person_id
             in if remaining = 0 then exec (delete_person person_id) s1 (\<lambda>s2. (Inr (), s2))
                else (Inr (), s1)))"

text \<open>
  \<^verbatim>\<open>
  for pid in person_ids:
      cur2 = conn.execute("SELECT COUNT(*) AS cnt FROM contracts WHERE person_id = ?", (pid,))
      if cur2.fetchone()["cnt"] == 0:
          conn.execute("DELETE FROM people WHERE person_id = ?", (pid,))
  \<close>
  the loop shared by \<^verbatim>\<open>delete_unit.work\<close> and \<^verbatim>\<open>delete_position.work\<close>.
\<close>

fun delete_orphans :: "int list \<Rightarrow> unit work" where
  "delete_orphans [] s = (Inr (), s)"
| "delete_orphans (pid # pids) s =
     (if count_contracts_of s pid = 0 then exec (delete_person pid) s (delete_orphans pids)
      else delete_orphans pids s)"

text \<open>Sequencing of a part of a unit of work that may itself have raised.\<close>

definition and_then :: "(exn + unit) \<times> store \<Rightarrow> 'a work \<Rightarrow> (exn + 'a) \<times> store" where
  "and_then r rest = (case r of (Inl e, s) \<Rightarrow> (Inl e, s) | (Inr _, s) \<Rightarrow> rest s)"

text \<open>\<^verbatim>\<open>delete_unit.work\<close>\<close>

definition delete_unit_work :: "int \<Rightarrow> unit work" where
  "delete_unit_work unit_id s =
     query (select_persons_of_unit s unit_id) s (\<lambda>person_ids.
       exec (delete_contracts_of_unit unit_id) s (\<lambda>s1.
         and_then (delete_orphans person_ids s1) (\<lambda>s2.
           exec (delete_positions_of_unit unit_id) s2 (\<lambda>s3.
             exec (delete_unit_row unit_id) s3 (\<lambda>s4. (Inr (), s4))))))"

text \<open>\<^verbatim>\<open>delete_position.work\<close>\<close>

definition delete_position_work :: "int \<Rightarrow> unit work" where
  "delete_position_work position_id s =
     query (select_persons_of_position s position_id) s (\<lambda>person_ids.
       exec (delete_contracts_of_position position_id) s (\<lambda>s1.
         and_then (delete_orphans person_ids s1) (\<lambda>s2.
           exec (delete_position_row position_id) s2 (\<lambda>s3. (Inr (), s3)))))"

text \<open>\<^verbatim>\<open>edit_position.work\<close>: the position row, then the contracts that refer to it.\<close>

definition edit_position_work :: "int \<Rightarrow> string \<Rightarrow> string \<Rightarrow> int \<Rightarrow> unit work" where
  "edit_position_work position_id code description unit_id s =
     exec (update_position position_id code description unit_id) s (\<lambda>s1.
       exec (update_contracts_unit unit_id position_id) s1 (\<lambda>s2. (Inr (), s2)))"

text \<open>
  The operations, from validated input to the outcome of the transaction and the
  database after it: \<^verbatim>\<open>execute_in_transaction(work, isolation="IMMEDIATE")\<close> in each route.
\<close>

definition create_contract :: "payload \<Rightarrow> store \<Rightarrow> (exn + unit) \<times> store" where
  "create_contract pl = execute_in_transaction (create_contract_work pl)"

definition edit_contract :: "int \<Rightarrow> payload \<Rightarrow> store \<Rightarrow> (exn + unit) \<times> store" where
  "edit_contract contract_id pl = execute_in_transaction (edit_contract_work contract_id pl)"

definition delete_contract :: "int \<Rightarrow> store \<Rightarrow> (exn + unit) \<times> store" where
  "delete_contract contract_id = execute_in_transaction (delete_contract_work contract_id)"

definition delete_unit :: "int \<Rightarrow> store \<Rightarrow> (exn + unit) \<times> store" where
  "delete_unit unit_id = execute_in_transaction (delete_unit_work unit_id)"

definition delete_position :: "int \<Rightarrow> store \<Rightarrow> (exn + unit) \<times> store" where
  "delete_position position_id = execute_in_transaction (delete_position_work position_id)"

definition edit_position :: "int \<Rightarrow> string \<Rightarrow> string \<Rightarrow> int \<Rightarrow> store \<Rightarrow> (exn + unit) \<times> store" where
  "edit_position position_id code description unit_id =
     execute_in_transaction (edit_position_work position_id code description unit_id)"

section \<open>Report filter builder (in \<^verbatim>\<open>report\<close>)\<close>

text \<open>A value bound to a \<^verbatim>\<open>?\<close> placeholder: the identifiers are integers, the salary bounds floats.\<close>

datatype sqlval = IntV int | RealV real

text \<open>
  \<^verbatim>\<open>
  conditions = []; params = []
  if unit_id is not None:
      conditions.append("c.unit_id = ?"); params.append(unit_id)
  if position_id is not None: ...
  if min_salary is not None: ...
  if max_salary is not None: ...
  \<close>
  Each step receives the two lists built so far and returns them, extended or not.
\<close>

definition add_filter :: "string \<Rightarrow> sqlval option \<Rightarrow> string list \<times> sqlval list \<Rightarrow> string list \<times> sqlval list" where
  "add_filter fragment v acc =
     (case v of
        None \<Rightarrow> acc
      | Some x \<Rightarrow> (fst acc @ [fragment], snd acc @ [x]))"

definition build_filter ::
  "int option \<Rightarrow> int option \<Rightarrow> real option \<Rightarrow> real option \<Rightarrow> string list \<times> sqlval list" where
  "build_filter unit_id position_id min_salary max_salary =
     add_filter ''c.salary_millions <= ?'' (map_option RealV max_salary)
       (add_filter ''c.salary_millions >= ?'' (map_option RealV min_salary)
         (add_filter ''c.position_id = ?'' (map_option IntV position_id)
           (add_filter ''c.unit_id = ?'' (map_option IntV unit_id) ([], []))))"

text \<open>Python's \<^verbatim>\<open>sep.join(parts)\<close>.\<close>

fun join :: "string \<Rightarrow> string list \<Rightarrow> string" where
  "join sep [] = []"
| "join sep [x] = x"
| "join sep (x # y # ys) = x @ sep @ join sep (y # ys)"

text \<open>
  \<^verbatim>\<open>
  where_clause = ""
  if conditions:
      where_clause = " WHERE " + " AND ".join(conditions)
  \<close>
\<close>

definition where_clause :: "string list \<Rightarrow> string" where
  "where_clause conditions =
     (if conditions = [] then [] else '' WHERE '' @ join '' AND '' conditions)"

text \<open>The four fixed fragments, for one filter present or absent.\<close>

definition fragment_if :: "string \<Rightarrow> 'a option \<Rightarrow> string list" where
  "fragment_if fragment v = (case v of None \<Rightarrow> [] | Some _ \<Rightarrow> [fragment])"

definition param_if :: "sqlval option \<Rightarrow> sqlval list" where
  "param_if v = (case v of None \<Rightarrow> [] | Some x \<Rightarrow> [x])"

definition same_presence :: "'a option \<Rightarrow> 'b option \<Rightarrow> bool" where
  "same_presence a b = ((a = None) = (b = None))"

section \<open>Consistency predicates and a sample roster\<close>

text \<open>
  Invariant 1 of the data model, in the words of the specification: every contract
  refers to a position of the store, and no contract refers to a position whose unit
  differs from the contract's own unit.
\<close>

definition unit_consistent :: "store \<Rightarrow> bool" where
  "unit_consistent s =
     (\<forall>c \<in> set (contracts s).
        (\<exists>p \<in> set (positions s). pos_id p = c_position c) \<and>
        (\<forall>p \<in> set (positions s). pos_id p = c_position c \<longrightarrow> pos_unit p = c_unit c))"

text \<open>The submitted pairing is one the store holds: a position with that key and that unit.\<close>

definition position_in_unit :: "store \<Rightarrow> int \<Rightarrow> int \<Rightarrow> bool" where
  "position_in_unit s position_id unit_id =
     (\<exists>p \<in> set (positions s). pos_id p = position_id \<and> pos_unit p = unit_id)"

text \<open>\<open>position_id\<close> is the primary key of \<^verbatim>\<open>positions\<close>.\<close>

definition position_keys_unique :: "store \<Rightarrow> bool" where
  "position_keys_unique s = distinct (map pos_id (positions s))"

text \<open>What \<^verbatim>\<open>_position_unit_matches\<close> answers once its parameter is bound.\<close>

definition lookup_matches :: "store \<Rightarrow> int \<Rightarrow> int \<Rightarrow> bool" where
  "lookup_matches s position_id unit_id =
     (case find (\<lambda>row. pos_id row = position_id) (positions s) of
        None \<Rightarrow> False
      | Some row \<Rightarrow> pos_unit row = unit_id)"

text \<open>
  A small roster on which the theorems below are exercised: Sam's only contract is for
  the quarterback position of unit 1, Alex's only contract for the linebacker position
  of unit 2.
\<close>

definition sample_store :: store where
  "sample_store =
     \<lparr>people = [\<lparr>p_id = 1, p_name = ''Sam''\<rparr>, \<lparr>p_id = 2, p_name = ''Alex''\<rparr>],
      units = [\<lparr>u_id = 1, u_name = ''Offense''\<rparr>, \<lparr>u_id = 2, u_name = ''Defense''\<rparr>],
      positions = [\<lparr>pos_id = 1, pos_code = ''QB'', pos_description = ''Quarterback'', pos_unit = 1\<rparr>,
                   \<lparr>pos_id = 2, pos_code = ''LB'', pos_description = ''Linebacker'', pos_unit = 2\<rparr>],
      contracts = [\<lparr>c_id = 1, c_person = 1, c_position = 1, c_unit = 1, c_start = ''2024-03-01'',
                     c_end = ''2026-03-01'', c_years = 2, c_salary = 10, c_cap_hit = 9\<rparr>,
                   \<lparr>c_id = 2, c_person = 2, c_position = 2, c_unit = 2, c_start = ''2024-01-01'',
                     c_end = ''2024-06-01'', c_years = 1, c_salary = 5, c_cap_hit = 4\<rparr>],
      contract_seq = 2\<rparr>"

definition sample_payload :: payload where
  "sample_payload =
     \<lparr>pl_person_name = ''Sam'', pl_person_id = 1, pl_position_id = 1, pl_unit_id = 1,
      pl_start_date = ''2025-01-01'', pl_end_date = ''2026-01-01'', pl_years = 1,
      pl_salary_millions = 3, pl_cap_hit_millions = 2\<rparr>"


text \<open>The rows of \<^verbatim>\<open>people\<close> with a given name.\<close>

definition people_named :: "store \<Rightarrow> string \<Rightarrow> person list" where
  "people_named s nm = filter (\<lambda>p. p_name p = nm) (people s)"

text \<open>
  The people that a cascade examines are those in \<open>person_ids\<close>; of them it removes
  the ones left without a contract.
\<close>

definition removed_person :: "int list \<Rightarrow> store \<Rightarrow> person \<Rightarrow> bool" where
  "removed_person person_ids s p = (p_id p \<in> set person_ids \<and> count_contracts_of s (p_id p) = 0)"

text \<open>The store after a committed contract creation: one new person, one new contract.\<close>

definition created :: "payload \<Rightarrow> store \<Rightarrow> store" where
  "created pl s =
     s\<lparr>people := people s @ [\<lparr>p_id = next_person_id s, p_name = pl_person_name pl\<rparr>],
       contracts := contracts s @
           [\<lparr>c_id = next_contract_id s, c_person = next_person_id s,
             c_position = pl_position_id pl, c_unit = pl_unit_id pl,
             c_start = pl_start_date pl, c_end = pl_end_date pl,
             c_years = pl_years pl, c_salary = pl_salary_millions pl,
             c_cap_hit = pl_cap_hit_millions pl\<rparr>],
       contract_seq := next_contract_id s\<rparr>"

section \<open>What a cascade is to remove\<close>

text \<open>
  A person is orphaned by the removal of the contracts \<open>gone\<close> when one of them was a
  contract of that person and none of the contracts \<open>kept\<close> is.
\<close>

definition orphaned_by :: "contract list \<Rightarrow> contract list \<Rightarrow> person \<Rightarrow> bool" where
  "orphaned_by gone kept p =
     ((\<exists>c \<in> set gone. c_person c = p_id p) \<and> (\<forall>c \<in> set kept. c_person c \<noteq> p_id p))"


section \<open>\<^verbatim>\<open>_validate_contract_payload\<close>\<close>

text \<open>
  A calendar date as \<^verbatim>\<open>datetime.date\<close> holds it; dates compare by year, then month,
  then day.
\<close>

record date =
  d_year :: int
  d_month :: int
  d_day :: int

definition date_less :: "date \<Rightarrow> date \<Rightarrow> bool" where
  "date_less a b =
     (d_year a < d_year b \<or>
      (d_year a = d_year b \<and>
       (d_month a < d_month b \<or> (d_month a = d_month b \<and> d_day a < d_day b))))"

text \<open>
  The functions of the Python library that validation calls, each with \<open>None\<close> for the
  exception it raises on a string it does not accept: \<^verbatim>\<open>int(s)\<close>, \<^verbatim>\<open>float(s)\<close>,
  \<^verbatim>\<open>datetime.strptime(s, "%Y-%m-%d").date()\<close> and \<^verbatim>\<open>s.strip()\<close>. Validation is
  a function of them; \<open>'f\<close> is the type of floating-point values.
\<close>

record 'f pylib =
  py_int :: "string \<Rightarrow> int option"
  py_float :: "string \<Rightarrow> 'f option"
  py_strptime :: "string \<Rightarrow> date option"
  py_strip :: "string \<Rightarrow> string"

text \<open>
  \<^verbatim>\<open>request.form\<close> maps field names to the submitted strings; \<^verbatim>\<open>form.get(k)\<close> is
  \<^verbatim>\<open>None\<close> for a field that was not submitted. A value is true in a condition when it is
  a non-empty string.
\<close>

type_synonym form = "string \<Rightarrow> string option"

definition truthy :: "string option \<Rightarrow> bool" where
  "truthy v = (case v of None \<Rightarrow> False | Some t \<Rightarrow> t \<noteq> [])"

text \<open>
  \<^verbatim>\<open>int(raw) if raw else None\<close> inside the \<^verbatim>\<open>try\<close>: the outer \<open>None\<close> is the
  \<^verbatim>\<open>ValueError\<close> of the conversion, \<open>Some None\<close> the value \<^verbatim>\<open>None\<close>.
\<close>

definition convert :: "(string \<Rightarrow> 'a option) \<Rightarrow> string option \<Rightarrow> 'a option option" where
  "convert parse raw =
     (case raw of
        None \<Rightarrow> Some None
      | Some t \<Rightarrow> if t = [] then Some None else map_option Some (parse t))"

text \<open>\<^verbatim>\<open>str(n)\<close> for the message about the expected number of years.\<close>

fun show_nat :: "nat \<Rightarrow> string" where
  "show_nat n =
     (if n < 10 then [char_of (48 + n)] else show_nat (n div 10) @ [char_of (48 + n mod 10)])"

definition show_int :: "int \<Rightarrow> string" where
  "show_int i = (if i < 0 then CHR ''-'' # show_nat (nat (- i)) else show_nat (nat i))"

text \<open>The dictionary that validation returns next to the errors.\<close>

record 'f contract_payload =
  cp_person_name :: "string option"
  cp_person_id :: "int option"
  cp_position_id :: "int option"
  cp_unit_id :: "int option"
  cp_start_date :: "string option"
  cp_end_date :: "string option"
  cp_years :: "int option"
  cp_salary_millions :: "'f option"
  cp_cap_hit_millions :: "'f option"

text \<open>
  \<^verbatim>\<open>
  if editing:
      person_id_raw = form.get("person_id")
      if not person_id_raw:
          errors.append("Missing person id.")
      else:
          try:
              person_id = int(person_id_raw)
          except ValueError:
              errors.append("Invalid person id.")
  else:
      person_name = (form.get("person_name") or "").strip()
      if not person_name:
          errors.append("Person name is required.")
  \<close>
  The result is \<open>person_name\<close>, \<open>person_id\<close> and the errors so far.
\<close>

definition person_field ::
  "'f pylib \<Rightarrow> form \<Rightarrow> bool \<Rightarrow> string option \<times> int option \<times> string list" where
  "person_field lib form editing =
     (if editing then
        (let person_id_raw = form ''person_id'' in
         if \<not> truthy person_id_raw then (None, None, [''Missing person id.''])
         else case py_int lib (the person_id_raw) of
                None \<Rightarrow> (None, None, [''Invalid person id.''])
              | Some n \<Rightarrow> (None, Some n, []))
      else
        (let person_name =
               py_strip lib (case form ''person_name'' of None \<Rightarrow> [] | Some t \<Rightarrow> t)
         in (Some person_name, None,
             if person_name = [] then [''Person name is required.''] else [])))"

text \<open>One conversion of the \<^verbatim>\<open>try\<close> block: its \<^verbatim>\<open>ValueError\<close> ends validation.\<close>

definition try_numeric ::
  "'a option option \<Rightarrow> string list \<Rightarrow> ('a option \<Rightarrow> 'b option \<times> string list) \<Rightarrow>
     'b option \<times> string list" where
  "try_numeric v errors rest =
     (case v of
        None \<Rightarrow> (None, errors @ [''Numeric fields must be valid numbers.''])
      | Some x \<Rightarrow> rest x)"

text \<open>
  \<^verbatim>\<open>datetime.strptime(raw, "%Y-%m-%d").date()\<close> under \<^verbatim>\<open>except Exception\<close>: a field that
  was not submitted raises \<^verbatim>\<open>TypeError\<close>, a string that is no date \<^verbatim>\<open>ValueError\<close>.
\<close>

definition parse_date :: "'f pylib \<Rightarrow> string option \<Rightarrow> date option" where
  "parse_date lib raw = (case raw of None \<Rightarrow> None | Some t \<Rightarrow> py_strptime lib t)"

text \<open>
  The whole of \<^verbatim>\<open>_validate_contract_payload(form, editing)\<close>: the payload or
  \<^verbatim>\<open>None\<close>, and the list of errors. The route goes on to the unit of work only when
  the list is empty.
\<close>

definition validate_contract_payload ::
  "'f pylib \<Rightarrow> form \<Rightarrow> bool \<Rightarrow> 'f contract_payload option \<times> string list" where
  "validate_contract_payload lib form editing =
     (case person_field lib form editing of (person_name, person_id, errors0) \<Rightarrow>
      let position_id_raw = form ''position_id'';
          unit_id_raw = form ''unit_id'';
          start_date = form ''start_date'';
          end_date = form ''end_date'';
          years_raw = form ''years'';
          salary_raw = form ''salary_millions'';
          cap_hit_raw = form ''cap_hit_millions'';
          errors =
            errors0 @
            (if \<not> (truthy position_id_raw \<and> truthy unit_id_raw \<and> truthy start_date \<and>
                    truthy end_date \<and> truthy years_raw \<and> truthy salary_raw \<and>
                    truthy cap_hit_raw)
             then [''All fields are required.''] else [])
      in try_numeric (convert (py_int lib) position_id_raw) errors (\<lambda>position_id.
         try_numeric (convert (py_int lib) unit_id_raw) errors (\<lambda>unit_id.
         try_numeric (convert (py_int lib) years_raw) errors (\<lambda>years.
         try_numeric (convert (py_float lib) salary_raw) errors (\<lambda>salary_m.
         try_numeric (convert (py_float lib) cap_hit_raw) errors (\<lambda>cap_hit_m.
           case parse_date lib start_date of
             None \<Rightarrow> (None, errors @ [''Dates must be valid (YYYY-MM-DD).''])
           | Some start_dt \<Rightarrow>
               (case parse_date lib end_date of
                  None \<Rightarrow> (None, errors @ [''Dates must be valid (YYYY-MM-DD).''])
                | Some end_dt \<Rightarrow>
                    if date_less end_dt start_dt
                    then (None, errors @ [''End date cannot be before start date.''])
                    else
                      let year_diff = d_year end_dt - d_year start_dt;
                          expected_years = max 1 year_diff
                      in if years \<noteq> Some expected_years
                         then (None, errors @ [''Years must equal '' @ show_int expected_years @
                                               '' based on start/end date.''])
                         else (Some \<lparr>cp_person_name = person_name, cp_person_id = person_id,
                                      cp_position_id = position_id, cp_unit_id = unit_id,
                                      cp_start_date = start_date, cp_end_date = end_date,
                                      cp_years = years, cp_salary_millions = salary_m,
                                      cp_cap_hit_millions = cap_hit_m\<rparr>,
                               errors))))))))"

text \<open>What the claim about validation is stated in: the fields other than the dates and
  the years are acceptable.\<close>

definition submitted :: "form \<Rightarrow> string \<Rightarrow> (string \<Rightarrow> 'a option) \<Rightarrow> bool" where
  "submitted form k parse =
     (case form k of None \<Rightarrow> False | Some t \<Rightarrow> t \<noteq> [] \<and> parse t \<noteq> None)"

definition other_fields_ok :: "'f pylib \<Rightarrow> form \<Rightarrow> bool \<Rightarrow> bool" where
  "other_fields_ok lib form editing =
     ((if editing then submitted form ''person_id'' (py_int lib)
       else py_strip lib (case form ''person_name'' of None \<Rightarrow> [] | Some t \<Rightarrow> t) \<noteq> []) \<and>
      submitted form ''position_id'' (py_int lib) \<and>
      submitted form ''unit_id'' (py_int lib) \<and>
      submitted form ''salary_millions'' (py_float lib) \<and>
      submitted form ''cap_hit_millions'' (py_float lib))"

text \<open>
  The submitted triple: both dates and the years are non-empty strings that the library
  reads as the dates \<open>start_dt\<close>, \<open>end_dt\<close> and the integer \<open>years\<close>.
\<close>

definition triple_reads :: "'f pylib \<Rightarrow> form \<Rightarrow> date \<Rightarrow> date \<Rightarrow> int \<Rightarrow> bool" where
  "triple_reads lib form start_dt end_dt years =
     (truthy (form ''start_date'') \<and> truthy (form ''end_date'') \<and> truthy (form ''years'') \<and>
      parse_date lib (form ''start_date'') = Some start_dt \<and>
      parse_date lib (form ''end_date'') = Some end_dt \<and>
      convert (py_int lib) (form ''years'') = Some (Some years))"

section \<open>The library on plain numerals and ISO dates\<close>

text \<open>
  An instance of the library for the examples: Python's functions on the strings of
  8-bit characters that are plain decimal numerals and dates written
  \<^verbatim>\<open>YYYY-MM-DD\<close>.
\<close>

definition is_digit :: "char \<Rightarrow> bool" where
  "is_digit c = (48 \<le> (of_char c :: nat) \<and> (of_char c :: nat) \<le> 57)"

definition digit_value :: "char \<Rightarrow> nat" where
  "digit_value c = of_char c - 48"

definition decimal :: "string \<Rightarrow> nat" where
  "decimal ds = foldl (\<lambda>n c. 10 * n + digit_value c) 0 ds"

text \<open>\<^verbatim>\<open>str.isspace\<close> on 8-bit characters.\<close>

definition is_space :: "char \<Rightarrow> bool" where
  "is_space c = ((of_char c :: nat) \<in> set [9, 10, 11, 12, 13, 28, 29, 30, 31, 32, 133, 160])"

definition strip :: "string \<Rightarrow> string" where
  "strip s = rev (dropWhile is_space (rev (dropWhile is_space s)))"

text \<open>
  \<^verbatim>\<open>int(s)\<close>: surrounding whitespace, an optional sign, then decimal digits, where
  single underscores may separate digits.
\<close>

fun grouped_digits :: "string \<Rightarrow> bool" where
  "grouped_digits [] = False"
| "grouped_digits [c] = is_digit c"
| "grouped_digits (c # d # cs) =
     (is_digit c \<and> (if d = CHR ''_'' then grouped_digits cs else grouped_digits (d # cs)))"

definition unsigned_int :: "string \<Rightarrow> int option" where
  "unsigned_int s =
     (if grouped_digits s then Some (int (decimal (filter (\<lambda>c. c \<noteq> CHR ''_'') s))) else None)"

definition int_of_string :: "string \<Rightarrow> int option" where
  "int_of_string s =
     (case strip s of
        [] \<Rightarrow> None
      | c # cs \<Rightarrow>
          if c = CHR ''-'' then map_option uminus (unsigned_int cs)
          else if c = CHR ''+'' then unsigned_int cs
          else unsigned_int (c # cs))"

text \<open>
  \<^verbatim>\<open>float(s)\<close> on the numerals \<^verbatim>\<open>digits\<close> and \<^verbatim>\<open>digits.digits\<close> with an optional
  sign, as the decimal number written; the other spellings that Python reads
  (exponents, \<^verbatim>\<open>inf\<close>, \<^verbatim>\<open>nan\<close>) and the rounding to a double are left out.
\<close>

definition unsigned_decimal :: "string \<Rightarrow> real option" where
  "unsigned_decimal s =
     (let whole = takeWhile is_digit s; rest = dropWhile is_digit s
      in if whole = [] then None
         else if rest = [] then Some (real (decimal whole))
         else case rest of
                c # fraction \<Rightarrow>
                  if c = CHR ''.'' \<and> fraction \<noteq> [] \<and> list_all is_digit fraction
                  then Some (real (decimal whole) + real (decimal fraction) / 10 ^ length fraction)
                  else None)"

definition float_of_string :: "string \<Rightarrow> real option" where
  "float_of_string s =
     (case strip s of
        [] \<Rightarrow> None
      | c # cs \<Rightarrow>
          if c = CHR ''-'' then map_option uminus (unsigned_decimal cs)
          else if c = CHR ''+'' then unsigned_decimal cs
          else unsigned_decimal (c # cs))"

text \<open>
  \<^verbatim>\<open>datetime.strptime(s, "%Y-%m-%d").date()\<close>: the year is four digits, the month one
  or two digits from 1 to 12, the day one or two digits (or a space and a digit) from 1
  to the length of the month; years start at 1.
\<close>

fun split_at :: "char \<Rightarrow> string \<Rightarrow> string list" where
  "split_at sep [] = [[]]"
| "split_at sep (c # cs) =
     (if c = sep then [] # split_at sep cs
      else case split_at sep cs of
             [] \<Rightarrow> [[c]]
           | p # ps \<Rightarrow> (c # p) # ps)"

definition leap_year :: "nat \<Rightarrow> bool" where
  "leap_year y = (y mod 4 = 0 \<and> (y mod 100 \<noteq> 0 \<or> y mod 400 = 0))"

definition days_in_month :: "nat \<Rightarrow> nat \<Rightarrow> nat" where
  "days_in_month y m =
     (if m = 2 then (if leap_year y then 29 else 28)
      else if m \<in> set [4, 6, 9, 11] then 30 else 31)"

definition month_field :: "string \<Rightarrow> bool" where
  "month_field m =
     (list_all is_digit m \<and> (length m = 1 \<or> length m = 2) \<and> 1 \<le> decimal m \<and> decimal m \<le> 12)"

definition day_field :: "string \<Rightarrow> bool" where
  "day_field d =
     ((list_all is_digit d \<and> (length d = 1 \<or> length d = 2) \<and> 1 \<le> decimal d \<and> decimal d \<le> 31) \<or>
      (length d = 2 \<and> hd d = CHR '' '' \<and> is_digit (d ! 1) \<and> d ! 1 \<noteq> CHR ''0''))"

definition strptime_ymd :: "string \<Rightarrow> date option" where
  "strptime_ymd s =
     (case split_at CHR ''-'' s of
        [y, m, d] \<Rightarrow>
          if length y = 4 \<and> list_all is_digit y \<and> month_field m \<and> day_field d
          then (let year = decimal y; month = decimal m;
                    day = decimal (filter is_digit d)
                in if 1 \<le> year \<and> day \<le> days_in_month year month
                   then Some \<lparr>d_year = int year, d_month = int month, d_day = int day\<rparr>
                   else None)
          else None
      | _ \<Rightarrow> None)"

definition plain_lib :: "real pylib" where
  "plain_lib = \<lparr>py_int = int_of_string, py_float = float_of_string,
                py_strptime = strptime_ymd, py_strip = strip\<rparr>"

text \<open>A creation form: everything but the dates and the years is fixed.\<close>

definition sample_form :: "string \<Rightarrow> string \<Rightarrow> string \<Rightarrow> form" where
  "sample_form start_date end_date years =
     map_of [(''person_name'', ''Sam''), (''position_id'', ''1''), (''unit_id'', ''1''),
             (''start_date'', start_date), (''end_date'', end_date), (''years'', years),
             (''salary_millions'', ''10.5''), (''cap_hit_millions'', ''9'')]"

section \<open>The two queries of \<^verbatim>\<open>report\<close>\<close>

text \<open>
  A parameter is bound before the statement runs; an integer outside the 64-bit range
  cannot be bound (\<^verbatim>\<open>OverflowError\<close>).
\<close>

definition bindable :: "sqlval \<Rightarrow> bool" where
  "bindable v = (case v of IntV n \<Rightarrow> sqlite_int n | RealV r \<Rightarrow> True)"

text \<open>
  What each of the four fragments of the \<^verbatim>\<open>WHERE\<close> clause says of a contract \<open>c\<close>,
  given the value bound to its placeholder. \<^verbatim>\<open>INTEGER\<close> and \<^verbatim>\<open>REAL\<close> values compare as
  numbers.
\<close>

definition column_compare :: "string \<Rightarrow> real \<Rightarrow> contract \<Rightarrow> bool" where
  "column_compare fragment x c =
     (if fragment = ''c.unit_id = ?'' then real_of_int (c_unit c) = x
      else if fragment = ''c.position_id = ?'' then real_of_int (c_position c) = x
      else if fragment = ''c.salary_millions >= ?'' then c_salary c \<ge> x
      else if fragment = ''c.salary_millions <= ?'' then c_salary c \<le> x
      else False)"

definition condition_holds :: "string \<Rightarrow> sqlval \<Rightarrow> contract \<Rightarrow> bool" where
  "condition_holds fragment v c =
     column_compare fragment (case v of IntV n \<Rightarrow> real_of_int n | RealV r \<Rightarrow> r) c"

text \<open>The fragments joined by \<^verbatim>\<open>AND\<close>, each with its own parameter; no fragment: no constraint.\<close>

definition where_holds :: "string list \<Rightarrow> sqlval list \<Rightarrow> contract \<Rightarrow> bool" where
  "where_holds conditions params c =
     list_all (\<lambda>(fragment, v). condition_holds fragment v c) (zip conditions params)"

text \<open>\<^verbatim>\<open>JOIN t ON c.k = t.k\<close>: the rows of \<open>t\<close> that a contract is paired with.\<close>

definition joined :: "('a \<Rightarrow> int) \<Rightarrow> int \<Rightarrow> 'a list \<Rightarrow> 'a list" where
  "joined key k rows = filter (\<lambda>r. k = key r) rows"

text \<open>
  A row of the listing: the query selects columns of the contract, of its person, of
  its position and of its unit.
\<close>

record listing_row =
  r_contract :: contract
  r_person :: person
  r_position :: position
  r_unit :: unit_row

text \<open>
  \<^verbatim>\<open>
  SELECT ... FROM contracts c
    JOIN people p      ON c.person_id   = p.person_id
    JOIN positions pos ON c.position_id = pos.position_id
    JOIN units u       ON c.unit_id     = u.unit_id
  \<close>
  followed by the \<^verbatim>\<open>WHERE\<close> clause and \<^verbatim>\<open>ORDER BY p.person_id\<close>.
\<close>

definition contracts_query :: "store \<Rightarrow> string list \<Rightarrow> sqlval list \<Rightarrow> exn + listing_row list" where
  "contracts_query s conditions params =
     (if \<not> list_all bindable params then Inl int_too_large
      else Inr (sort_key (\<lambda>r. p_id (r_person r))
                  [\<lparr>r_contract = c, r_person = p, r_position = pos, r_unit = u\<rparr>.
                     c \<leftarrow> contracts s,
                     p \<leftarrow> joined p_id (c_person c) (people s),
                     pos \<leftarrow> joined pos_id (c_position c) (positions s),
                     u \<leftarrow> joined u_id (c_unit c) (units s),
                     where_holds conditions params c]))"

text \<open>
  The row that the statistics query returns. \<^verbatim>\<open>COUNT(*)\<close> of no rows is 0;
  \<^verbatim>\<open>AVG\<close> and \<^verbatim>\<open>SUM\<close> of no rows are \<^verbatim>\<open>NULL\<close>.
\<close>

record stats =
  count_contracts :: nat
  avg_salary :: "real option"
  avg_cap_hit :: "real option"
  total_cap_hit :: "real option"

definition sql_avg :: "real list \<Rightarrow> real option" where
  "sql_avg xs = (if xs = [] then None else Some (sum_list xs / real (length xs)))"

definition sql_sum :: "real list \<Rightarrow> real option" where
  "sql_sum xs = (if xs = [] then None else Some (sum_list xs))"

text \<open>
  \<^verbatim>\<open>
  SELECT COUNT(*) AS count_contracts, AVG(c.salary_millions) AS avg_salary,
         AVG(c.cap_hit_millions) AS avg_cap_hit, SUM(c.cap_hit_millions) AS total_cap_hit
  FROM contracts c JOIN people p ON c.person_id = p.person_id
  \<close>
  followed by the same \<^verbatim>\<open>WHERE\<close> clause; \<^verbatim>\<open>query_db(..., one=True)\<close> takes the one row
  of the result.
\<close>

definition stats_rows :: "store \<Rightarrow> string list \<Rightarrow> sqlval list \<Rightarrow> contract list" where
  "stats_rows s conditions params =
     [c. c \<leftarrow> contracts s, p \<leftarrow> joined p_id (c_person c) (people s),
         where_holds conditions params c]"

definition stats_query :: "store \<Rightarrow> string list \<Rightarrow> sqlval list \<Rightarrow> exn + stats" where
  "stats_query s conditions params =
     (if \<not> list_all bindable params then Inl int_too_large
      else let rows = stats_rows s conditions params
           in Inr \<lparr>count_contracts = length rows,
                   avg_salary = sql_avg (map c_salary rows),
                   avg_cap_hit = sql_avg (map c_cap_hit rows),
                   total_cap_hit = sql_sum (map c_cap_hit rows)\<rparr>)"

text \<open>
  \<^verbatim>\<open>report\<close> from the parsed filters on: the filter is built once, and both queries
  run with its fragments and its parameters.
  \<^verbatim>\<open>
  contracts = query_db(contracts_query, params)
  stats = query_db(stats_query, params, one=True)
  \<close>
\<close>

definition report ::
  "store \<Rightarrow> int option \<Rightarrow> int option \<Rightarrow> real option \<Rightarrow> real option \<Rightarrow>
     exn + listing_row list \<times> stats" where
  "report s unit_id position_id min_salary max_salary =
     (case build_filter unit_id position_id min_salary max_salary of (conditions, params) \<Rightarrow>
        case contracts_query s conditions params of
          Inl e \<Rightarrow> Inl e
        | Inr listing \<Rightarrow>
            (case stats_query s conditions params of
               Inl e \<Rightarrow> Inl e
             | Inr st \<Rightarrow> Inr (listing, st)))"

text \<open>
  The summary card of the template shows the figures only
  \<^verbatim>\<open>{% if stats and stats['count_contracts'] > 0 %}\<close>, and otherwise the text
  \<^verbatim>\<open>No contracts match the filters.\<close>; \<open>None\<close> is that text.
\<close>

definition summary :: "stats \<Rightarrow> (nat \<times> real option \<times> real option \<times> real option) option" where
  "summary st =
     (if count_contracts st > 0
      then Some (count_contracts st, avg_salary st, avg_cap_hit st, total_cap_hit st)
      else None)"

text \<open>The filters as the specification words them: a contract is one the report is about.\<close>

definition matches ::
  "int option \<Rightarrow> int option \<Rightarrow> real option \<Rightarrow> real option \<Rightarrow> contract \<Rightarrow> bool" where
  "matches unit_id position_id min_salary max_salary c =
     ((case unit_id of None \<Rightarrow> True | Some u \<Rightarrow> c_unit c = u) \<and>
      (case position_id of None \<Rightarrow> True | Some q \<Rightarrow> c_position c = q) \<and>
      (case min_salary of None \<Rightarrow> True | Some lo \<Rightarrow> lo \<le> c_salary c) \<and>
      (case max_salary of None \<Rightarrow> True | Some hi \<Rightarrow> c_salary c \<le> hi))"

text \<open>
  The schema's keys and references: the keys of people, positions and units are unique,
  and every contract refers to a person, a position and a unit of the store.
\<close>

definition keys_and_references :: "store \<Rightarrow> bool" where
  "keys_and_references s =
     (distinct (map p_id (people s)) \<and> distinct (map pos_id (positions s)) \<and>
      distinct (map u_id (units s)) \<and>
      (\<forall>c \<in> set (contracts s).
         c_person c \<in> set (map p_id (people s)) \<and>
         c_position c \<in> set (map pos_id (positions s)) \<and>
         c_unit c \<in> set (map u_id (units s))))"

text \<open>The integer filters that can be bound.\<close>

definition filter_in_range :: "int option \<Rightarrow> bool" where
  "filter_in_range v = (case v of None \<Rightarrow> True | Some n \<Rightarrow> sqlite_int n)"

section \<open>Facts about the sample roster\<close>

lemma sample_fields:
  "people sample_store = [\<lparr>p_id = 1, p_name = ''Sam''\<rparr>, \<lparr>p_id = 2, p_name = ''Alex''\<rparr>]"
  "units sample_store = [\<lparr>u_id = 1, u_name = ''Offense''\<rparr>, \<lparr>u_id = 2, u_name = ''Defense''\<rparr>]"
  "positions sample_store =
     [\<lparr>pos_id = 1, pos_code = ''QB'', pos_description = ''Quarterback'', pos_unit = 1\<rparr>,
      \<lparr>pos_id = 2, pos_code = ''LB'', pos_description = ''Linebacker'', pos_unit = 2\<rparr>]"
  "contracts sample_store =
     [\<lparr>c_id = 1, c_person = 1, c_position = 1, c_unit = 1, c_start = ''2024-03-01'',
        c_end = ''2026-03-01'', c_years = 2, c_salary = 10, c_cap_hit = 9\<rparr>,
      \<lparr>c_id = 2, c_person = 2, c_position = 2, c_unit = 2, c_start = ''2024-01-01'',
        c_end = ''2024-06-01'', c_years = 1, c_salary = 5, c_cap_hit = 4\<rparr>]"
  "contract_seq sample_store = 2"
  by (simp_all add: sample_store_def)

lemma sample_next_id: "next_person_id sample_store = 3"
  by (simp add: next_person_id_def existing_ids_def sample_fields)

section \<open>The allocator returns the smallest free positive identifier\<close>

lemma scan_ids_spec:
  "sorted xs \<Longrightarrow>
     n \<le> scan_ids n xs \<and> scan_ids n xs \<notin> set xs \<and>
     (\<forall>m. n \<le> m \<and> m < scan_ids n xs \<longrightarrow> m \<in> set xs)"
proof (induction xs arbitrary: n)
  case Nil
  show ?case by simp
next
  case (Cons pid rest)
  from Cons.prems have srt: "sorted rest" and lb: "\<forall>x\<in>set rest. pid \<le> x"
    by simp_all
  consider (hit) "pid = n" | (gap) "n < pid" | (below) "pid < n"
    by linarith
  then show ?case
  proof cases
    case hit
    from Cons.IH [OF srt, of "n + 1"]
    have a: "n + 1 \<le> scan_ids (n + 1) rest" and b: "scan_ids (n + 1) rest \<notin> set rest"
      and c: "\<And>m. n + 1 \<le> m \<Longrightarrow> m < scan_ids (n + 1) rest \<Longrightarrow> m \<in> set rest"
      by blast+
    have "m \<in> set (pid # rest)" if "n \<le> m" "m < scan_ids (n + 1) rest" for m
      using that c [of m] hit by (cases "m = n") auto
    with a b hit show ?thesis by auto
  next
    case gap
    with lb show ?thesis by auto
  next
    case below
    from Cons.IH [OF srt, of n] below show ?thesis
      by auto
  qed
qed

text \<open>
  Claim C2. Whatever Person rows the table holds, the identifier that contract creation
  computes for the new Person is positive, is not the identifier of any Person row, and
  every smaller positive integer is in use: it is the smallest positive integer not
  present. When the identifiers in use are exactly \<open>1..n\<close> (no gap), it is \<open>n + 1\<close>.
\<close>

theorem next_person_id_least_free:
  "0 < next_person_id s \<and>
   next_person_id s \<notin> p_id ` set (people s) \<and>
   (\<forall>m. 0 < m \<and> m < next_person_id s \<longrightarrow> m \<in> p_id ` set (people s)) \<and>
   (\<forall>n. 0 \<le> n \<and> p_id ` set (people s) = {1..n} \<longrightarrow> next_person_id s = n + 1)"
proof -
  let ?ids = "existing_ids s"
  let ?r = "next_person_id s"
  have set_ids: "set ?ids = p_id ` set (people s)"
    by (simp add: existing_ids_def)
  have "sorted ?ids" by (simp add: existing_ids_def)
  from scan_ids_spec [OF this, of 1]
  have pos: "1 \<le> ?r" and fresh: "?r \<notin> set ?ids"
    and dense: "\<forall>m. 1 \<le> m \<and> m < ?r \<longrightarrow> m \<in> set ?ids"
    by (simp_all add: next_person_id_def)
  have nogap: "?r = n + 1" if nn: "0 \<le> n" and full: "p_id ` set (people s) = {1..n}" for n
  proof (rule antisym)
    show "?r \<le> n + 1"
    proof (rule ccontr)
      assume "\<not> ?r \<le> n + 1"
      with nn dense have "n + 1 \<in> set ?ids"
        by simp
      with set_ids full show False by simp
    qed
    from fresh set_ids full have "?r \<notin> {1..n}" by simp
    with pos show "n + 1 \<le> ?r" by simp
  qed
  from pos fresh dense nogap set_ids show ?thesis
    by auto
qed

theorem next_person_id_least_free_witness:
  "next_person_id \<lparr>people = [\<lparr>p_id = 1, p_name = ''A''\<rparr>, \<lparr>p_id = 3, p_name = ''B''\<rparr>],
       units = [], positions = [], contracts = [], contract_seq = 0\<rparr> = 2 \<and>
   next_person_id \<lparr>people = [\<lparr>p_id = 2, p_name = ''B''\<rparr>, \<lparr>p_id = 1, p_name = ''A''\<rparr>],
       units = [], positions = [], contracts = [], contract_seq = 0\<rparr> = 3"
proof -
  let ?s = "\<lparr>people = [\<lparr>p_id = 2, p_name = ''B''\<rparr>, \<lparr>p_id = 1, p_name = ''A''\<rparr>],
       units = [], positions = [], contracts = [], contract_seq = 0\<rparr>"
  have "p_id ` set (people ?s) = {1..2}" by auto
  with next_person_id_least_free [of ?s] have "next_person_id ?s = 3" by simp
  moreover have "next_person_id \<lparr>people = [\<lparr>p_id = 1, p_name = ''A''\<rparr>, \<lparr>p_id = 3, p_name = ''B''\<rparr>],
       units = [], positions = [], contracts = [], contract_seq = 0\<rparr> = 2"
    by (simp add: next_person_id_def existing_ids_def)
  ultimately show ?thesis by simp
qed

section \<open>The filter builder emits fixed fragments and binds the values\<close>

lemma build_filter_conditions:
  "fst (build_filter u p lo hi) =
     fragment_if ''c.unit_id = ?'' u @ fragment_if ''c.position_id = ?'' p @
     fragment_if ''c.salary_millions >= ?'' lo @ fragment_if ''c.salary_millions <= ?'' hi"
  by (cases u; cases p; cases lo; cases hi)
     (simp_all add: build_filter_def add_filter_def fragment_if_def)

lemma build_filter_params:
  "snd (build_filter u p lo hi) =
     param_if (map_option IntV u) @ param_if (map_option IntV p) @
     param_if (map_option RealV lo) @ param_if (map_option RealV hi)"
  by (cases u; cases p; cases lo; cases hi)
     (simp_all add: build_filter_def add_filter_def param_if_def)

lemma fragment_if_presence:
  "same_presence a b \<Longrightarrow> fragment_if f a = fragment_if f b"
  by (cases a; cases b) (simp_all add: same_presence_def fragment_if_def)

text \<open>
  Claim C7. For any of the sixteen combinations of present and absent filters, the
  conditions are the fixed fragments of the present filters in the order unit, position,
  minimum salary, maximum salary; the parameters are the values of the present filters in
  that same order, one per fragment; the clause is empty when no filter is present and
  otherwise \<^verbatim>\<open>WHERE\<close> followed by the fragments joined by \<^verbatim>\<open>AND\<close>; and the text of
  the clause is the same for any two requests with the same filters present, whatever
  their values, so no value reaches the SQL text.
\<close>

theorem build_filter_fragments_and_params:
  "fst (build_filter u p lo hi) =
     fragment_if ''c.unit_id = ?'' u @ fragment_if ''c.position_id = ?'' p @
     fragment_if ''c.salary_millions >= ?'' lo @ fragment_if ''c.salary_millions <= ?'' hi \<and>
   snd (build_filter u p lo hi) =
     param_if (map_option IntV u) @ param_if (map_option IntV p) @
     param_if (map_option RealV lo) @ param_if (map_option RealV hi) \<and>
   length (snd (build_filter u p lo hi)) = length (fst (build_filter u p lo hi)) \<and>
   where_clause (fst (build_filter u p lo hi)) =
     (if u = None \<and> p = None \<and> lo = None \<and> hi = None then []
      else '' WHERE '' @ join '' AND '' (fst (build_filter u p lo hi))) \<and>
   (\<forall>u' p' lo' hi'.
      same_presence u u' \<and> same_presence p p' \<and> same_presence lo lo' \<and> same_presence hi hi' \<longrightarrow>
      where_clause (fst (build_filter u' p' lo' hi')) = where_clause (fst (build_filter u p lo hi)))"
proof -
  have len: "length (snd (build_filter u p lo hi)) = length (fst (build_filter u p lo hi))"
    by (cases u; cases p; cases lo; cases hi)
       (simp_all add: build_filter_def add_filter_def)
  have clause: "where_clause (fst (build_filter u p lo hi)) =
     (if u = None \<and> p = None \<and> lo = None \<and> hi = None then []
      else '' WHERE '' @ join '' AND '' (fst (build_filter u p lo hi)))"
    by (cases u; cases p; cases lo; cases hi)
       (simp_all add: build_filter_def add_filter_def where_clause_def)
  have indep: "where_clause (fst (build_filter u' p' lo' hi')) = where_clause (fst (build_filter u p lo hi))"
    if "same_presence u u'" "same_presence p p'" "same_presence lo lo'" "same_presence hi hi'"
    for u' p' lo' hi'
    using that
    by (simp only: build_filter_conditions
          fragment_if_presence [of u u'] fragment_if_presence [of p p']
          fragment_if_presence [of lo lo'] fragment_if_presence [of hi hi'])
  from build_filter_conditions build_filter_params len clause indep show ?thesis
    by blast
qed

theorem build_filter_fragments_and_params_witness:
  "same_presence (Some (3::int)) (Some (7::int)) \<and> same_presence (None::int option) (None::int option) \<and>
   same_presence (Some (5::real)) (Some (1::real)) \<and> same_presence (Some (10::real)) (Some (2::real)) \<and>
   where_clause (fst (build_filter (Some 7) None (Some 1) (Some 2))) =
     where_clause (fst (build_filter (Some 3) None (Some 5) (Some 10))) \<and>
   where_clause (fst (build_filter (Some 3) None (Some 5) (Some 10))) =
     '' WHERE c.unit_id = ? AND c.salary_millions >= ? AND c.salary_millions <= ?'' \<and>
   snd (build_filter (Some 3) None (Some 5) (Some 10)) = [IntV 3, RealV 5, RealV 10]"
proof -
  have pres: "same_presence (Some (3::int)) (Some (7::int))" "same_presence (None::int option) (None::int option)"
    "same_presence (Some (5::real)) (Some (1::real))" "same_presence (Some (10::real)) (Some (2::real))"
    by (simp_all add: same_presence_def)
  from build_filter_fragments_and_params [of "Some 3" None "Some 5" "Some 10"] pres
  have "where_clause (fst (build_filter (Some 7) None (Some 1) (Some 2))) =
     where_clause (fst (build_filter (Some 3) None (Some 5) (Some 10)))"
    by blast
  moreover have "where_clause (fst (build_filter (Some 3) None (Some 5) (Some 10))) =
     '' WHERE c.unit_id = ? AND c.salary_millions >= ? AND c.salary_millions <= ?''"
    by (simp add: build_filter_def add_filter_def where_clause_def)
  moreover have "snd (build_filter (Some 3) None (Some 5) (Some 10)) = [IntV 3, RealV 5, RealV 10]"
    by (simp add: build_filter_def add_filter_def)
  ultimately show ?thesis using pres by simp
qed

section \<open>The transaction orchestrator commits or rolls back as a whole\<close>

text \<open>
  Outside a transaction the connection keeps whatever a unit of work wrote before it
  raised, and \<^verbatim>\<open>ROLLBACK\<close> has nothing to undo and raises: the atomicity below rests on
  the \<^verbatim>\<open>BEGIN IMMEDIATE\<close> that \<^verbatim>\<open>execute_in_transaction\<close> issues first.
\<close>

lemma run_work_autocommit:
  "run_work work (connect db) =
     (case work db of (r, s') \<Rightarrow> (r, \<lparr>durable = s', pending = None\<rparr>))"
  by (simp add: run_work_def connect_def split: prod.splits)

lemma rollback_outside_transaction:
  "rollback (connect db) = Inl (OperationalError ''cannot rollback - no transaction is active'')"
  by (simp add: rollback_def connect_def)

lemma execute_in_transaction_eq:
  "execute_in_transaction work s =
     (case work s of (Inr r, s') \<Rightarrow> (Inr r, s') | (Inl e, s') \<Rightarrow> (Inl e, s))"
  by (simp add: execute_in_transaction_def run_work_def begin_immediate_def connect_def
      commit_def rollback_def close_def on_exception_def split: prod.splits sum.splits)



section \<open>The operations, outcome by outcome\<close>

lemma next_person_id_fresh: "next_person_id s \<notin> set (map p_id (people s))"
proof -
  have "sorted (existing_ids s)" by (simp add: existing_ids_def)
  from scan_ids_spec [OF this, of 1] show ?thesis
    by (simp add: next_person_id_def existing_ids_def)
qed

lemma position_unit_matches_eq:
  "position_unit_matches s q u =
     (if \<not> sqlite_int q then Inl int_too_large else Inr (lookup_matches s q u))"
  by (simp add: position_unit_matches_def lookup_matches_def)

lemma lookup_matches_cong:
  "positions s' = positions s \<Longrightarrow> lookup_matches s' q u = lookup_matches s q u"
  by (simp add: lookup_matches_def)

lemma find_key_Some:
  "find (\<lambda>r. key r = k) xs = Some r \<Longrightarrow> key r = k \<and> r \<in> set xs"
  by (induction xs) (auto split: if_splits)

lemma find_key_None:
  "(find (\<lambda>r. key r = k) xs = None) = (k \<notin> set (map key xs))"
  by (induction xs) auto

lemma find_distinct_key:
  "distinct (map key xs) \<Longrightarrow> x \<in> set xs \<Longrightarrow> find (\<lambda>r. key r = key x) xs = Some x"
proof (induction xs)
  case Nil
  then show ?case by simp
next
  case (Cons a xs)
  show ?case
  proof (cases "a = x")
    case True
    then show ?thesis by simp
  next
    case False
    with Cons.prems have "x \<in> set xs" "key a \<noteq> key x"
      by (auto simp: image_iff)
    with Cons show ?thesis by simp
  qed
qed

lemma lookup_matches_in_unit:
  "lookup_matches s q u \<Longrightarrow> position_in_unit s q u"
proof -
  assume m: "lookup_matches s q u"
  then obtain row where f: "find (\<lambda>row. pos_id row = q) (positions s) = Some row"
    and u: "pos_unit row = u"
    by (auto simp: lookup_matches_def split: option.splits)
  from find_key_Some [OF f] u show ?thesis
    by (auto simp: position_in_unit_def)
qed

lemma lookup_matches_in_positions:
  "lookup_matches s q u \<Longrightarrow> q \<in> set (map pos_id (positions s))"
  using lookup_matches_in_unit [of s q u] by (auto simp: position_in_unit_def)

lemma lookup_matches_all:
  assumes "position_keys_unique s" "lookup_matches s q u"
    "p \<in> set (positions s)" "pos_id p = q"
  shows "pos_unit p = u"
proof -
  from assms(1,3) have "find (\<lambda>r. pos_id r = pos_id p) (positions s) = Some p"
    unfolding position_keys_unique_def by (rule find_distinct_key)
  with assms(2,4) show ?thesis
    by (simp add: lookup_matches_def)
qed

lemma in_unit_lookup_matches:
  assumes "position_keys_unique s" "position_in_unit s q u"
  shows "lookup_matches s q u"
proof -
  from assms(2) obtain p where p: "p \<in> set (positions s)" "pos_id p = q" "pos_unit p = u"
    by (auto simp: position_in_unit_def)
  from assms(1) p(1) have "find (\<lambda>r. pos_id r = pos_id p) (positions s) = Some p"
    unfolding position_keys_unique_def by (rule find_distinct_key)
  with p show ?thesis
    by (simp add: lookup_matches_def)
qed

lemma create_contract_cases:
  "create_contract pl s =
     (if \<not> sqlite_int (next_person_id s) then (Inl int_too_large, s)
      else if \<not> sqlite_int (pl_position_id pl) then (Inl int_too_large, s)
      else if \<not> lookup_matches s (pl_position_id pl) (pl_unit_id pl)
      then (Inl (ValueError ''Selected position does not belong to selected unit.''), s)
      else if \<not> (sqlite_int (pl_unit_id pl) \<and> sqlite_int (pl_years pl)) then (Inl int_too_large, s)
      else if \<not> sqlite_int (next_contract_id s) then (Inl store_full, s)
      else if pl_unit_id pl \<notin> set (map u_id (units s)) then (Inl fk_failed, s)
      else (Inr (), created pl s))"
proof -
  let ?s1 = "s\<lparr>people := people s @ [\<lparr>p_id = next_person_id s, p_name = pl_person_name pl\<rparr>]\<rparr>"
  have ins: "insert_person (next_person_id s) (pl_person_name pl) s =
      (if \<not> sqlite_int (next_person_id s) then Inl int_too_large else Inr ?s1)"
    using next_person_id_fresh [of s] by (simp add: insert_person_def)
  have m: "lookup_matches ?s1 q u = lookup_matches s q u" for q u
    by (rule lookup_matches_cong) simp
  have n: "next_contract_id ?s1 = next_contract_id s"
    by (simp add: next_contract_id_def)
  have r: "refs_ok ?s1 (next_person_id s) (pl_position_id pl) (pl_unit_id pl) =
      (pl_unit_id pl \<in> set (map u_id (units s)))"
    if "lookup_matches s (pl_position_id pl) (pl_unit_id pl)"
    using lookup_matches_in_positions [OF that] by (simp add: refs_ok_def)
  have ic: "insert_contract (next_person_id s) pl ?s1 =
      (if \<not> (sqlite_int (pl_unit_id pl) \<and> sqlite_int (pl_years pl)) then Inl int_too_large
       else if \<not> sqlite_int (next_contract_id s) then Inl store_full
       else if pl_unit_id pl \<notin> set (map u_id (units s)) then Inl fk_failed
       else Inr (created pl s))"
    if "sqlite_int (next_person_id s)" "sqlite_int (pl_position_id pl)"
       "lookup_matches s (pl_position_id pl) (pl_unit_id pl)"
    using that r [OF that(3)] by (simp add: insert_contract_def n created_def)
  have w: "create_contract_work pl s =
      (if \<not> sqlite_int (next_person_id s) then (Inl int_too_large, s)
       else if \<not> sqlite_int (pl_position_id pl) then (Inl int_too_large, ?s1)
       else if \<not> lookup_matches s (pl_position_id pl) (pl_unit_id pl)
       then (Inl (ValueError ''Selected position does not belong to selected unit.''), ?s1)
       else case insert_contract (next_person_id s) pl ?s1 of
              Inl e \<Rightarrow> (Inl e, ?s1) | Inr s2 \<Rightarrow> (Inr (), s2))"
    by (simp add: create_contract_work_def Let_def exec_def query_def ins
        position_unit_matches_eq m)
  show ?thesis
  proof (cases "sqlite_int (next_person_id s) \<and> sqlite_int (pl_position_id pl) \<and>
      lookup_matches s (pl_position_id pl) (pl_unit_id pl)")
    case False
    with w show ?thesis
      by (auto simp: create_contract_def execute_in_transaction_eq)
  next
    case True
    then have a: "sqlite_int (next_person_id s)" "sqlite_int (pl_position_id pl)"
       "lookup_matches s (pl_position_id pl) (pl_unit_id pl)" by simp_all
    from w a ic [OF a] show ?thesis
      by (simp add: create_contract_def execute_in_transaction_eq)
  qed
qed

lemma edit_contract_cases:
  "edit_contract cid pl s =
     (if \<not> sqlite_int (pl_position_id pl) then (Inl int_too_large, s)
      else if \<not> lookup_matches s (pl_position_id pl) (pl_unit_id pl)
      then (Inl (ValueError ''Selected position does not belong to selected unit.''), s)
      else if \<not> (sqlite_int (pl_person_id pl) \<and> sqlite_int (pl_unit_id pl) \<and>
                 sqlite_int (pl_years pl) \<and> sqlite_int cid) then (Inl int_too_large, s)
      else if cid \<notin> set (map c_id (contracts s)) then (Inr (), s)
      else if \<not> refs_ok s (pl_person_id pl) (pl_position_id pl) (pl_unit_id pl) then (Inl fk_failed, s)
      else (Inr (), s\<lparr>contracts :=
                  map (\<lambda>c. if c_id c = cid then set_contract pl c else c) (contracts s)\<rparr>))"
  by (simp add: edit_contract_def execute_in_transaction_eq edit_contract_work_def exec_def
      query_def position_unit_matches_eq update_contract_def)

lemma edit_position_cases:
  "edit_position pid code d u s =
     (if \<not> (sqlite_int u \<and> sqlite_int pid) then (Inl int_too_large, s)
      else if pid \<notin> set (map pos_id (positions s))
      then (if pid \<in> set (map c_position (contracts s)) \<and> u \<notin> set (map u_id (units s))
            then (Inl fk_failed, s)
            else (Inr (), s\<lparr>contracts :=
                  map (\<lambda>c. if c_position c = pid then c\<lparr>c_unit := u\<rparr> else c) (contracts s)\<rparr>))
      else if code_taken s pid code
      then (Inl (IntegrityError ''UNIQUE constraint failed: positions.code''), s)
      else if u \<notin> set (map u_id (units s)) then (Inl fk_failed, s)
      else (Inr (), s\<lparr>positions :=
                  map (\<lambda>p. if pos_id p = pid
                           then p\<lparr>pos_code := code, pos_description := d, pos_unit := u\<rparr>
                           else p) (positions s),
                 contracts :=
                  map (\<lambda>c. if c_position c = pid then c\<lparr>c_unit := u\<rparr> else c) (contracts s)\<rparr>))"
proof -
  let ?s1 = "s\<lparr>positions :=
                  map (\<lambda>p. if pos_id p = pid
                           then p\<lparr>pos_code := code, pos_description := d, pos_unit := u\<rparr>
                           else p) (positions s)\<rparr>"
  consider (large) "\<not> (sqlite_int u \<and> sqlite_int pid)"
    | (absent) "sqlite_int u" "sqlite_int pid" "pid \<notin> set (map pos_id (positions s))"
    | (clash) "sqlite_int u" "sqlite_int pid" "pid \<in> set (map pos_id (positions s))"
        "code_taken s pid code"
    | (nounit) "sqlite_int u" "sqlite_int pid" "pid \<in> set (map pos_id (positions s))"
        "\<not> code_taken s pid code"
        "u \<notin> set (map u_id (units s))"
    | (ok) "sqlite_int u" "sqlite_int pid" "pid \<in> set (map pos_id (positions s))"
        "\<not> code_taken s pid code"
        "u \<in> set (map u_id (units s))"
    by blast
  then show ?thesis
  proof cases
    case large
    then have "update_position pid code d u s = Inl int_too_large"
      by (simp add: update_position_def)
    with large show ?thesis
      by (simp add: edit_position_def execute_in_transaction_eq edit_position_work_def exec_def)
  next
    case absent
    then have "update_position pid code d u s = Inr s"
      by (simp add: update_position_def)
    with absent show ?thesis
      by (simp add: edit_position_def execute_in_transaction_eq edit_position_work_def exec_def
          update_contracts_unit_def)
  next
    case clash
    then have "update_position pid code d u s =
        Inl (IntegrityError ''UNIQUE constraint failed: positions.code'')"
      by (simp add: update_position_def)
    with clash show ?thesis
      by (simp add: edit_position_def execute_in_transaction_eq edit_position_work_def exec_def)
  next
    case nounit
    then have "update_position pid code d u s = Inl fk_failed"
      by (simp add: update_position_def)
    with nounit show ?thesis
      by (simp add: edit_position_def execute_in_transaction_eq edit_position_work_def exec_def)
  next
    case ok
    then have "update_position pid code d u s = Inr ?s1"
      by (simp add: update_position_def)
    moreover from ok have "update_contracts_unit u pid ?s1 =
        Inr (?s1\<lparr>contracts :=
                  map (\<lambda>c. if c_position c = pid then c\<lparr>c_unit := u\<rparr> else c) (contracts s)\<rparr>)"
      by (simp add: update_contracts_unit_def)
    ultimately show ?thesis using ok
      by (simp add: edit_position_def execute_in_transaction_eq edit_position_work_def exec_def)
  qed
qed

lemma edit_position_committed:
  assumes "fst (edit_position pid code d u s) = Inr ()"
  shows "contracts (snd (edit_position pid code d u s)) =
           map (\<lambda>c. if c_position c = pid then c\<lparr>c_unit := u\<rparr> else c) (contracts s)"
    and "positions (snd (edit_position pid code d u s)) =
           map (\<lambda>p. if pos_id p = pid
                     then p\<lparr>pos_code := code, pos_description := d, pos_unit := u\<rparr>
                     else p) (positions s)"
    and "people (snd (edit_position pid code d u s)) = people s"
    and "pid \<in> set (map pos_id (positions s)) \<longrightarrow> u \<in> set (map u_id (units s))"
proof -
  have nomatch: "map (\<lambda>p. if pos_id p = pid
                     then p\<lparr>pos_code := code, pos_description := d, pos_unit := u\<rparr>
                     else p) (positions s) = positions s"
    if "pid \<notin> set (map pos_id (positions s))"
    using that by (intro map_idI) auto
  show "contracts (snd (edit_position pid code d u s)) =
           map (\<lambda>c. if c_position c = pid then c\<lparr>c_unit := u\<rparr> else c) (contracts s)"
    using assms unfolding edit_position_cases
    by (simp split: if_split_asm)
  show "positions (snd (edit_position pid code d u s)) =
           map (\<lambda>p. if pos_id p = pid
                     then p\<lparr>pos_code := code, pos_description := d, pos_unit := u\<rparr>
                     else p) (positions s)"
    using assms nomatch unfolding edit_position_cases
    by (simp split: if_split_asm)
  show "people (snd (edit_position pid code d u s)) = people s"
    using assms unfolding edit_position_cases
    by (simp split: if_split_asm)
  show "pid \<in> set (map pos_id (positions s)) \<longrightarrow> u \<in> set (map u_id (units s))"
    using assms unfolding edit_position_cases
    by (simp split: if_split_asm)
qed

section \<open>Deleting an unknown contract\<close>

lemma find_contract_absent:
  "contract_id \<notin> set (map c_id (contracts s)) \<Longrightarrow>
     find (\<lambda>c. c_id c = contract_id) (contracts s) = None"
  by (auto simp: find_None_iff)

text \<open>
  The claim C10 as stated, that deleting a contract whose \<open>contract_id\<close> is not in the
  store completes without raising, fails for an identifier beyond the 64-bit range: the
  route's integer converter accepts \<open>2^63\<close>, no contract of the sample roster has that
  key, and binding it in the first \<^verbatim>\<open>SELECT\<close> raises \<^verbatim>\<open>OverflowError\<close>, which
  \<^verbatim>\<open>execute_in_transaction\<close> re-raises.
\<close>

theorem delete_contract_unknown_raises_counterexample:
  "9223372036854775808 \<notin> set (map c_id (contracts sample_store)) \<and>
   delete_contract 9223372036854775808 sample_store =
     (Inl (OverflowError ''Python int too large to convert to SQLite INTEGER''), sample_store)"
  by (simp add: delete_contract_def execute_in_transaction_eq delete_contract_work_def query_def
      select_contract_person_def sqlite_int_def int_too_large_def sample_fields)

text \<open>
  Claim C10, amended. When no contract has the given \<open>contract_id\<close> and the identifier
  fits a 64-bit integer, the unit of work of \<^verbatim>\<open>delete_contract\<close> returns at once with
  the store it received, and the operation completes without an exception and leaves
  every table as it was. When the identifier does not fit, the lookup raises
  \<^verbatim>\<open>OverflowError\<close> before any write; the operation raises it and leaves every table
  as it was.
\<close>

theorem delete_contract_unknown_noop:
  "contract_id \<notin> set (map c_id (contracts s)) \<Longrightarrow>
     (sqlite_int contract_id \<longrightarrow>
        delete_contract_work contract_id s = (Inr (), s) \<and>
        delete_contract contract_id s = (Inr (), s)) \<and>
     (\<not> sqlite_int contract_id \<longrightarrow>
        delete_contract_work contract_id s = (Inl int_too_large, s) \<and>
        delete_contract contract_id s = (Inl int_too_large, s))"
proof -
  assume "contract_id \<notin> set (map c_id (contracts s))"
  then have none: "find (\<lambda>c. c_id c = contract_id) (contracts s) = None"
    by (rule find_contract_absent)
  have small: "delete_contract_work contract_id s = (Inr (), s)" if "sqlite_int contract_id"
    using that none by (simp add: delete_contract_work_def query_def select_contract_person_def)
  have large: "delete_contract_work contract_id s = (Inl int_too_large, s)"
    if "\<not> sqlite_int contract_id"
    using that by (simp add: delete_contract_work_def query_def select_contract_person_def)
  from small large show ?thesis
    by (simp add: delete_contract_def execute_in_transaction_eq)
qed

theorem delete_contract_unknown_noop_witness:
  "7 \<notin> set (map c_id (contracts sample_store)) \<and> sqlite_int 7 \<and>
   delete_contract_work 7 sample_store = (Inr (), sample_store) \<and>
   delete_contract 7 sample_store = (Inr (), sample_store)"
proof -
  have h: "7 \<notin> set (map c_id (contracts sample_store))"
    by (simp add: sample_fields)
  have r: "sqlite_int 7"
    by (simp add: sqlite_int_def)
  from delete_contract_unknown_noop [OF h] h r show ?thesis by simp
qed

section \<open>Invariant 1 is preserved\<close>

lemma unit_consistent_extend:
  assumes inv: "unit_consistent s" and uniq: "position_keys_unique s"
    and pos: "positions s' = positions s"
    and cs: "\<And>c. c \<in> set (contracts s') \<Longrightarrow>
               c \<in> set (contracts s) \<or> (c_position c = q \<and> c_unit c = u)"
    and m: "lookup_matches s q u"
  shows "unit_consistent s'"
  unfolding unit_consistent_def
proof (intro ballI conjI impI)
  fix c assume c: "c \<in> set (contracts s')"
  show "\<exists>p \<in> set (positions s'). pos_id p = c_position c"
  proof (cases "c \<in> set (contracts s)")
    case True
    with inv pos show ?thesis by (simp add: unit_consistent_def)
  next
    case False
    with cs [OF c] have "c_position c = q" by simp
    with lookup_matches_in_positions [OF m] pos show ?thesis by auto
  qed
next
  fix c p assume c: "c \<in> set (contracts s')" and p: "p \<in> set (positions s')"
    and k: "pos_id p = c_position c"
  show "pos_unit p = c_unit c"
  proof (cases "c \<in> set (contracts s)")
    case True
    with inv pos p k show ?thesis by (simp add: unit_consistent_def)
  next
    case False
    with cs [OF c] have n: "c_position c = q" "c_unit c = u" by simp_all
    from p pos have "p \<in> set (positions s)" by simp
    from lookup_matches_all [OF uniq m this] k n show ?thesis by simp
  qed
qed

lemma create_contract_snd:
  "snd (create_contract pl s) = (if fst (create_contract pl s) = Inr () then created pl s else s)"
  by (simp add: create_contract_cases)

lemma create_contract_committed:
  "fst (create_contract pl s) = Inr () \<Longrightarrow>
     lookup_matches s (pl_position_id pl) (pl_unit_id pl) \<and> sqlite_int (pl_position_id pl) \<and>
     sqlite_int (next_person_id s)"
  by (simp add: create_contract_cases split: if_split_asm)

lemma unit_consistent_create:
  assumes "unit_consistent s" "position_keys_unique s"
  shows "unit_consistent (snd (create_contract pl s))"
proof (cases "fst (create_contract pl s) = Inr ()")
  case False
  then have "snd (create_contract pl s) = s"
    by (simp add: create_contract_snd)
  with assms show ?thesis by simp
next
  case True
  then have m: "lookup_matches s (pl_position_id pl) (pl_unit_id pl)"
    and r: "snd (create_contract pl s) = created pl s"
    by (simp_all add: create_contract_snd create_contract_committed)
  have "unit_consistent (created pl s)"
  proof (rule unit_consistent_extend [OF assms _ _ m])
    show "positions (created pl s) = positions s" by (simp add: created_def)
    show "c \<in> set (contracts s) \<or> c_position c = pl_position_id pl \<and> c_unit c = pl_unit_id pl"
      if "c \<in> set (contracts (created pl s))" for c
      using that by (auto simp: created_def)
  qed
  with r show ?thesis by simp
qed

lemma unit_consistent_edit_contract:
  assumes "unit_consistent s" "position_keys_unique s"
  shows "unit_consistent (snd (edit_contract cid pl s))"
proof (cases "snd (edit_contract cid pl s) = s")
  case True
  with assms show ?thesis by simp
next
  case False
  let ?s' = "s\<lparr>contracts :=
                  map (\<lambda>c. if c_id c = cid then set_contract pl c else c) (contracts s)\<rparr>"
  from False have m: "lookup_matches s (pl_position_id pl) (pl_unit_id pl)"
    and r: "snd (edit_contract cid pl s) = ?s'"
    by (simp_all add: edit_contract_cases split: if_split_asm)
  have "unit_consistent ?s'"
  proof (rule unit_consistent_extend [OF assms _ _ m])
    show "positions ?s' = positions s" by simp
    show "c \<in> set (contracts s) \<or> c_position c = pl_position_id pl \<and> c_unit c = pl_unit_id pl"
      if "c \<in> set (contracts ?s')" for c
    proof -
      from that obtain x where x: "x \<in> set (contracts s)"
        and c: "c = (if c_id x = cid then set_contract pl x else x)"
        by (auto simp: image_iff)
      show ?thesis
      proof (cases "c_id x = cid")
        case True
        with c show ?thesis by (simp add: set_contract_def)
      next
        case False
        with c x show ?thesis by simp
      qed
    qed
  qed
  with r show ?thesis by simp
qed

lemma moved_contract:
  assumes "c \<in> set (map (\<lambda>c. if c_position c = pid then c\<lparr>c_unit := u\<rparr> else c) cs)"
  obtains x where "x \<in> set cs" "c_position c = c_position x"
    "c_position x = pid \<longrightarrow> c_unit c = u" "c_position x \<noteq> pid \<longrightarrow> c = x"
proof -
  from assms obtain x where x: "x \<in> set cs"
    and c: "c = (if c_position x = pid then x\<lparr>c_unit := u\<rparr> else x)"
    unfolding set_map by (rule imageE)
  show ?thesis
  proof (cases "c_position x = pid")
    case True
    with c x that [of x] show ?thesis by simp
  next
    case False
    with c x that [of x] show ?thesis by simp
  qed
qed

lemma moved_position:
  assumes "p \<in> set (map (\<lambda>p. if pos_id p = pid
                     then p\<lparr>pos_code := code, pos_description := d, pos_unit := u\<rparr>
                     else p) ps)"
  obtains x where "x \<in> set ps" "pos_id p = pos_id x"
    "pos_id x = pid \<longrightarrow> pos_unit p = u" "pos_id x \<noteq> pid \<longrightarrow> p = x"
proof -
  from assms obtain x where x: "x \<in> set ps"
    and p: "p = (if pos_id x = pid
                 then x\<lparr>pos_code := code, pos_description := d, pos_unit := u\<rparr> else x)"
    unfolding set_map by (rule imageE)
  show ?thesis
  proof (cases "pos_id x = pid")
    case True
    with p x that [of x] show ?thesis by simp
  next
    case False
    with p x that [of x] show ?thesis by simp
  qed
qed

lemma moved_position_keys:
  "map pos_id (map (\<lambda>p. if pos_id p = pid
                     then p\<lparr>pos_code := code, pos_description := d, pos_unit := u\<rparr>
                     else p) ps) = map pos_id ps"
  by (induction ps) simp_all

lemma unit_consistent_ref:
  assumes "unit_consistent s" "c \<in> set (contracts s)"
  shows "c_position c \<in> pos_id ` set (positions s)"
proof -
  from assms obtain p where "p \<in> set (positions s)" "pos_id p = c_position c"
    unfolding unit_consistent_def by blast
  then show ?thesis by (metis imageI)
qed

lemma edit_position_rolled_back:
  "fst (edit_position pid code d u s) \<noteq> Inr () \<longrightarrow> snd (edit_position pid code d u s) = s"
  by (simp add: edit_position_cases)

lemma unit_consistent_edit_position:
  assumes inv: "unit_consistent s"
  shows "unit_consistent (snd (edit_position pid code d u s))"
proof (cases "fst (edit_position pid code d u s) = Inr ()")
  case False
  then have "snd (edit_position pid code d u s) = s"
    by (simp add: edit_position_rolled_back)
  with inv show ?thesis by simp
next
  case True
  let ?s' = "snd (edit_position pid code d u s)"
  note cs = edit_position_committed(1) [OF True]
  note ps = edit_position_committed(2) [OF True]
  have "map pos_id (positions ?s') = map pos_id (positions s)"
    unfolding ps by (rule moved_position_keys)
  then have "set (map pos_id (positions ?s')) = set (map pos_id (positions s))"
    by (rule arg_cong)
  then have keys: "pos_id ` set (positions ?s') = pos_id ` set (positions s)"
    by (simp only: set_map)
  show ?thesis
    unfolding unit_consistent_def
  proof (intro ballI conjI impI)
    fix c assume "c \<in> set (contracts ?s')"
    then obtain x where x: "x \<in> set (contracts s)" "c_position c = c_position x"
      unfolding cs by (rule moved_contract)
    from inv x(1) have "c_position x \<in> pos_id ` set (positions s)"
      by (rule unit_consistent_ref)
    with keys have "c_position x \<in> pos_id ` set (positions ?s')"
      by simp
    then obtain p where "p \<in> set (positions ?s')" "c_position x = pos_id p"
      by (rule imageE)
    with x(2) show "\<exists>p \<in> set (positions ?s'). pos_id p = c_position c"
      by (intro bexI [of _ p]) simp_all
  next
    fix c p assume "c \<in> set (contracts ?s')" and "p \<in> set (positions ?s')"
      and k: "pos_id p = c_position c"
    then obtain x y where x: "x \<in> set (contracts s)" "c_position c = c_position x"
      "c_position x = pid \<longrightarrow> c_unit c = u" "c_position x \<noteq> pid \<longrightarrow> c = x"
      and y: "y \<in> set (positions s)" "pos_id p = pos_id y"
      "pos_id y = pid \<longrightarrow> pos_unit p = u" "pos_id y \<noteq> pid \<longrightarrow> p = y"
      unfolding cs ps by (elim moved_contract moved_position)
    show "pos_unit p = c_unit c"
    proof (cases "c_position x = pid")
      case True
      with x y k show ?thesis by simp
    next
      case False
      with x y k have "c = x" "p = y" by simp_all
      with inv x(1) y(1) k show ?thesis by (simp add: unit_consistent_def)
    qed
  qed
qed

lemma position_keys_unique_kept:
  assumes "position_keys_unique s"
  shows "position_keys_unique (snd (create_contract pl s))"
    and "position_keys_unique (snd (edit_contract cid pl s))"
    and "position_keys_unique (snd (edit_position pid code d u s))"
proof -
  from assms show "position_keys_unique (snd (create_contract pl s))"
    by (simp add: create_contract_snd created_def position_keys_unique_def)
  from assms show "position_keys_unique (snd (edit_contract cid pl s))"
    by (simp add: edit_contract_cases position_keys_unique_def)
  show "position_keys_unique (snd (edit_position pid code d u s))"
  proof (cases "fst (edit_position pid code d u s) = Inr ()")
    case False
    with assms show ?thesis by (simp add: edit_position_rolled_back)
  next
    case True
    have "map pos_id (positions (snd (edit_position pid code d u s))) = map pos_id (positions s)"
      unfolding edit_position_committed(2) [OF True] by (rule moved_position_keys)
    with assms show ?thesis by (simp add: position_keys_unique_def)
  qed
qed

lemma mismatch_raises:
  assumes "\<not> position_in_unit s (pl_position_id pl) (pl_unit_id pl)"
  shows "create_contract pl s =
          (Inl (if sqlite_int (next_person_id s) \<and> sqlite_int (pl_position_id pl)
                then ValueError ''Selected position does not belong to selected unit.''
                else int_too_large), s)"
    and "edit_contract cid pl s =
          (Inl (if sqlite_int (pl_position_id pl)
                then ValueError ''Selected position does not belong to selected unit.''
                else int_too_large), s)"
proof -
  from assms have n: "\<not> lookup_matches s (pl_position_id pl) (pl_unit_id pl)"
    using lookup_matches_in_unit by blast
  from n show "create_contract pl s =
          (Inl (if sqlite_int (next_person_id s) \<and> sqlite_int (pl_position_id pl)
                then ValueError ''Selected position does not belong to selected unit.''
                else int_too_large), s)"
    by (simp add: create_contract_cases)
  from n show "edit_contract cid pl s =
          (Inl (if sqlite_int (pl_position_id pl)
                then ValueError ''Selected position does not belong to selected unit.''
                else int_too_large), s)"
    by (simp add: edit_contract_cases)
qed

lemma committed_pairing:
  shows "fst (create_contract pl s) = Inr () \<longrightarrow> position_in_unit s (pl_position_id pl) (pl_unit_id pl)"
    and "fst (edit_contract cid pl s) = Inr () \<longrightarrow> position_in_unit s (pl_position_id pl) (pl_unit_id pl)"
proof -
  show "fst (create_contract pl s) = Inr () \<longrightarrow> position_in_unit s (pl_position_id pl) (pl_unit_id pl)"
    using mismatch_raises(1) [of s pl] by (cases "position_in_unit s (pl_position_id pl) (pl_unit_id pl)") simp_all
  show "fst (edit_contract cid pl s) = Inr () \<longrightarrow> position_in_unit s (pl_position_id pl) (pl_unit_id pl)"
    using mismatch_raises(2) [of s pl cid] by (cases "position_in_unit s (pl_position_id pl) (pl_unit_id pl)") simp_all
qed

lemma reassigned:
  assumes "fst (edit_position pid code d u s) = Inr ()"
  shows "\<forall>c \<in> set (contracts (snd (edit_position pid code d u s))). c_position c = pid \<longrightarrow> c_unit c = u"
    and "\<forall>p \<in> set (positions (snd (edit_position pid code d u s))). pos_id p = pid \<longrightarrow> pos_unit p = u"
proof -
  show "\<forall>c \<in> set (contracts (snd (edit_position pid code d u s))). c_position c = pid \<longrightarrow> c_unit c = u"
  proof (intro ballI impI)
    fix c assume m: "c \<in> set (contracts (snd (edit_position pid code d u s)))" and k: "c_position c = pid"
    from m obtain x where "x \<in> set (contracts s)" "c_position c = c_position x"
      "c_position x = pid \<longrightarrow> c_unit c = u" "c_position x \<noteq> pid \<longrightarrow> c = x"
      unfolding edit_position_committed(1) [OF assms] by (rule moved_contract)
    with k show "c_unit c = u" by simp
  qed
  show "\<forall>p \<in> set (positions (snd (edit_position pid code d u s))). pos_id p = pid \<longrightarrow> pos_unit p = u"
  proof (intro ballI impI)
    fix p assume m: "p \<in> set (positions (snd (edit_position pid code d u s)))" and k: "pos_id p = pid"
    from m obtain x where "x \<in> set (positions s)" "pos_id p = pos_id x"
      "pos_id x = pid \<longrightarrow> pos_unit p = u" "pos_id x \<noteq> pid \<longrightarrow> p = x"
      unfolding edit_position_committed(2) [OF assms] by (rule moved_position)
    with k show "pos_unit p = u" by simp
  qed
qed

text \<open>
  The claim C1 as stated, that contract creation raises a business-rule error unless
  the position's stored unit equals the submitted unit, fails for a position identifier
  beyond the 64-bit range: \<^verbatim>\<open>int(position_id_raw)\<close> accepts \<open>2^63\<close>, no position of the
  sample roster has that key, and the lookup of \<^verbatim>\<open>_position_unit_matches\<close> raises
  \<^verbatim>\<open>OverflowError\<close>, not the \<^verbatim>\<open>ValueError\<close> of the business rule.
\<close>

theorem create_contract_overflow_counterexample:
  "\<not> position_in_unit sample_store 9223372036854775808 1 \<and>
   create_contract (sample_payload\<lparr>pl_position_id := 9223372036854775808\<rparr>) sample_store =
     (Inl (OverflowError ''Python int too large to convert to SQLite INTEGER''), sample_store)"
  by (simp add: create_contract_cases sample_next_id sqlite_int_def int_too_large_def
      position_in_unit_def sample_fields sample_payload_def)

text \<open>
  Claim C1, amended. Take a store whose position keys are unique and in which every
  contract carries the unit of the position it refers to. The store after contract
  creation, after contract update and after the reassignment of a position is again such
  a store, whether the operation committed or was rolled back. When the store holds no
  position with the submitted key and the submitted unit, creation and update raise and
  leave the store as it was: they raise the business-rule error \<^verbatim>\<open>ValueError\<close> when the
  submitted position identifier (and, for creation, the allocated person identifier) fits
  a 64-bit integer, and \<^verbatim>\<open>OverflowError\<close> otherwise; so a creation or update that
  commits has paired a position with its stored unit. A committed reassignment leaves
  the position and every contract that refers to it with the new unit.
\<close>

theorem contract_unit_follows_position:
  "unit_consistent s \<Longrightarrow> position_keys_unique s \<Longrightarrow>
     (unit_consistent (snd (create_contract pl s)) \<and>
      position_keys_unique (snd (create_contract pl s))) \<and>
     (unit_consistent (snd (edit_contract contract_id pl s)) \<and>
      position_keys_unique (snd (edit_contract contract_id pl s))) \<and>
     (unit_consistent (snd (edit_position position_id code description unit_id s)) \<and>
      position_keys_unique (snd (edit_position position_id code description unit_id s))) \<and>
     (\<not> position_in_unit s (pl_position_id pl) (pl_unit_id pl) \<longrightarrow>
        create_contract pl s =
          (Inl (if sqlite_int (next_person_id s) \<and> sqlite_int (pl_position_id pl)
                then ValueError ''Selected position does not belong to selected unit.''
                else int_too_large), s) \<and>
        edit_contract contract_id pl s =
          (Inl (if sqlite_int (pl_position_id pl)
                then ValueError ''Selected position does not belong to selected unit.''
                else int_too_large), s)) \<and>
     (fst (create_contract pl s) = Inr () \<longrightarrow>
        position_in_unit s (pl_position_id pl) (pl_unit_id pl)) \<and>
     (fst (edit_contract contract_id pl s) = Inr () \<longrightarrow>
        position_in_unit s (pl_position_id pl) (pl_unit_id pl)) \<and>
     (fst (edit_position position_id code description unit_id s) = Inr () \<longrightarrow>
        (\<forall>c \<in> set (contracts (snd (edit_position position_id code description unit_id s))).
           c_position c = position_id \<longrightarrow> c_unit c = unit_id) \<and>
        (\<forall>p \<in> set (positions (snd (edit_position position_id code description unit_id s))).
           pos_id p = position_id \<longrightarrow> pos_unit p = unit_id))"
proof -
  assume inv: "unit_consistent s" and uniq: "position_keys_unique s"
  show ?thesis
  proof (intro conjI impI)
    show "unit_consistent (snd (create_contract pl s))"
      using inv uniq by (rule unit_consistent_create)
    show "unit_consistent (snd (edit_contract contract_id pl s))"
      using inv uniq by (rule unit_consistent_edit_contract)
    show "unit_consistent (snd (edit_position position_id code description unit_id s))"
      using inv by (rule unit_consistent_edit_position)
    show "position_keys_unique (snd (create_contract pl s))"
      using uniq by (rule position_keys_unique_kept(1))
    show "position_keys_unique (snd (edit_contract contract_id pl s))"
      using uniq by (rule position_keys_unique_kept(2))
    show "position_keys_unique (snd (edit_position position_id code description unit_id s))"
      using uniq by (rule position_keys_unique_kept(3))
  next
    assume "\<not> position_in_unit s (pl_position_id pl) (pl_unit_id pl)"
    then show "create_contract pl s =
          (Inl (if sqlite_int (next_person_id s) \<and> sqlite_int (pl_position_id pl)
                then ValueError ''Selected position does not belong to selected unit.''
                else int_too_large), s)"
      by (rule mismatch_raises(1))
  next
    assume "\<not> position_in_unit s (pl_position_id pl) (pl_unit_id pl)"
    then show "edit_contract contract_id pl s =
          (Inl (if sqlite_int (pl_position_id pl)
                then ValueError ''Selected position does not belong to selected unit.''
                else int_too_large), s)"
      by (rule mismatch_raises(2))
  next
    assume "fst (create_contract pl s) = Inr ()"
    with committed_pairing(1) show "position_in_unit s (pl_position_id pl) (pl_unit_id pl)"
      by blast
  next
    assume "fst (edit_contract contract_id pl s) = Inr ()"
    with committed_pairing(2) show "position_in_unit s (pl_position_id pl) (pl_unit_id pl)"
      by blast
  next
    assume "fst (edit_position position_id code description unit_id s) = Inr ()"
    then show "\<forall>c \<in> set (contracts (snd (edit_position position_id code description unit_id s))).
           c_position c = position_id \<longrightarrow> c_unit c = unit_id"
      by (rule reassigned(1))
  next
    assume "fst (edit_position position_id code description unit_id s) = Inr ()"
    then show "\<forall>p \<in> set (positions (snd (edit_position position_id code description unit_id s))).
           pos_id p = position_id \<longrightarrow> pos_unit p = unit_id"
      by (rule reassigned(2))
  qed
qed

theorem contract_unit_follows_position_witness:
  "unit_consistent sample_store \<and> position_keys_unique sample_store \<and>
   \<not> position_in_unit sample_store 1 2 \<and>
   create_contract (sample_payload\<lparr>pl_unit_id := 2\<rparr>) sample_store =
     (Inl (ValueError ''Selected position does not belong to selected unit.''), sample_store) \<and>
   fst (create_contract sample_payload sample_store) = Inr () \<and>
   unit_consistent (snd (create_contract sample_payload sample_store)) \<and>
   fst (edit_position 1 ''QB'' ''Quarterback'' 2 sample_store) = Inr () \<and>
   unit_consistent (snd (edit_position 1 ''QB'' ''Quarterback'' 2 sample_store)) \<and>
   map c_unit (contracts (snd (edit_position 1 ''QB'' ''Quarterback'' 2 sample_store))) = [2, 2] \<and>
   map pos_unit (positions (snd (edit_position 1 ''QB'' ''Quarterback'' 2 sample_store))) = [2, 2]"
proof -
  let ?bad = "sample_payload\<lparr>pl_unit_id := 2\<rparr>"
  have inv: "unit_consistent sample_store"
    by (simp add: unit_consistent_def sample_fields)
  have uniq: "position_keys_unique sample_store"
    by (simp add: position_keys_unique_def sample_fields)
  have mis: "\<not> position_in_unit sample_store (pl_position_id ?bad) (pl_unit_id ?bad)"
    by (simp add: position_in_unit_def sample_fields sample_payload_def)
  have mis': "\<not> position_in_unit sample_store 1 2"
    by (simp add: position_in_unit_def sample_fields)
  have rng: "sqlite_int (next_person_id sample_store) \<and> sqlite_int (pl_position_id ?bad)"
    by (simp add: sample_next_id sqlite_int_def sample_payload_def)
  have made: "fst (create_contract sample_payload sample_store) = Inr ()"
    by (simp add: create_contract_cases sample_next_id sqlite_int_def lookup_matches_def
        next_contract_id_def sample_fields sample_payload_def)
  have ok: "fst (edit_position 1 ''QB'' ''Quarterback'' 2 sample_store) = Inr ()"
    by (simp add: edit_position_cases code_taken_def sqlite_int_def sample_fields)
  have cs: "map c_unit (contracts (snd (edit_position 1 ''QB'' ''Quarterback'' 2 sample_store))) = [2, 2]"
    by (simp add: edit_position_cases code_taken_def sqlite_int_def sample_fields)
  have ps: "map pos_unit (positions (snd (edit_position 1 ''QB'' ''Quarterback'' 2 sample_store))) = [2, 2]"
    by (simp add: edit_position_cases code_taken_def sqlite_int_def sample_fields)
  note bad = contract_unit_follows_position [OF inv uniq, where pl = ?bad and contract_id = 1
      and position_id = 1 and code = "''QB''" and description = "''Quarterback''" and unit_id = 2]
  note good = contract_unit_follows_position [OF inv uniq, where pl = sample_payload
      and contract_id = 1 and position_id = 1 and code = "''QB''"
      and description = "''Quarterback''" and unit_id = 2]
  note refused = bad [THEN conjunct2, THEN conjunct2, THEN conjunct2, THEN conjunct1,
      THEN mp, OF mis, THEN conjunct1]
  have raised: "create_contract ?bad sample_store =
     (Inl (ValueError ''Selected position does not belong to selected unit.''), sample_store)"
    using refused rng by (simp only: if_True simp_thms)
  note kept = good [THEN conjunct1, THEN conjunct1]
  note moved = good [THEN conjunct2, THEN conjunct2, THEN conjunct1, THEN conjunct1]
  show ?thesis
    by (intro conjI inv uniq mis' raised made kept ok moved cs ps)
qed

section \<open>The cascades, outcome by outcome\<close>

lemma exec_Inr: "stmt s = Inr s' \<Longrightarrow> exec stmt s rest = rest s'"
  by (simp add: exec_def)

lemma exec_Inl: "stmt s = Inl e \<Longrightarrow> exec stmt s rest = (Inl e, s)"
  by (simp add: exec_def)

lemma count_zero_iff:
  "(count_contracts_of s pid = 0) = (pid \<notin> set (map c_person (contracts s)))"
  by (auto simp: count_contracts_of_def filter_empty_conv)

lemma delete_person_unreferenced:
  "count_contracts_of s pid = 0 \<Longrightarrow>
     delete_person pid s = Inr (s\<lparr>people := filter (\<lambda>p. p_id p \<noteq> pid) (people s)\<rparr>)"
  by (simp add: delete_person_def count_zero_iff)

lemma count_people_update:
  "count_contracts_of (s\<lparr>people := ps\<rparr>) pid = count_contracts_of s pid"
  by (simp add: count_contracts_of_def)

lemma delete_orphans_eq:
  "delete_orphans pids s =
     (Inr (), s\<lparr>people := filter (\<lambda>p. \<not> removed_person pids s p) (people s)\<rparr>)"
proof (induction pids arbitrary: s)
  case Nil
  show ?case by (simp add: removed_person_def)
next
  case (Cons pid pids)
  show ?case
  proof (cases "count_contracts_of s pid = 0")
    case True
    let ?s1 = "s\<lparr>people := filter (\<lambda>p. p_id p \<noteq> pid) (people s)\<rparr>"
    have "delete_orphans (pid # pids) s = delete_orphans pids ?s1"
      using True by (simp add: exec_def delete_person_unreferenced)
    also have "\<dots> = (Inr (), ?s1\<lparr>people := filter (\<lambda>p. \<not> removed_person pids ?s1 p) (people ?s1)\<rparr>)"
      by (rule Cons.IH)
    also have "filter (\<lambda>p. \<not> removed_person pids ?s1 p) (people ?s1) =
        filter (\<lambda>p. \<not> removed_person (pid # pids) s p) (people s)"
      using True by (auto simp: removed_person_def count_people_update intro: filter_cong)
    finally show ?thesis by simp
  next
    case False
    have "delete_orphans (pid # pids) s = delete_orphans pids s"
      using False by simp
    also have "\<dots> = (Inr (), s\<lparr>people := filter (\<lambda>p. \<not> removed_person pids s p) (people s)\<rparr>)"
      by (rule Cons.IH)
    also have "filter (\<lambda>p. \<not> removed_person pids s p) (people s) =
        filter (\<lambda>p. \<not> removed_person (pid # pids) s p) (people s)"
      using False by (auto simp: removed_person_def intro: filter_cong)
    finally show ?thesis by simp
  qed
qed

lemma delete_unit_cases:
  "delete_unit u s =
     (if \<not> sqlite_int u then (Inl int_too_large, s)
      else let s1 = s\<lparr>contracts := filter (\<lambda>c. c_unit c \<noteq> u) (contracts s)\<rparr>;
               pids = remdups (map c_person (filter (\<lambda>c. c_unit c = u) (contracts s)))
           in if unit_positions_in_use s1 u then (Inl fk_failed, s)
              else (Inr (),
               s\<lparr>people := filter (\<lambda>p. \<not> removed_person pids s1 p) (people s),
                 units := filter (\<lambda>r. u_id r \<noteq> u) (units s),
                 positions := filter (\<lambda>p. pos_unit p \<noteq> u) (positions s),
                 contracts := filter (\<lambda>c. c_unit c \<noteq> u) (contracts s)\<rparr>))"
proof (cases "sqlite_int u")
  case False
  then show ?thesis
    by (simp add: delete_unit_def execute_in_transaction_eq delete_unit_work_def
        select_persons_of_unit_def query_def)
next
  case rng: True
  let ?s1 = "s\<lparr>contracts := filter (\<lambda>c. c_unit c \<noteq> u) (contracts s)\<rparr>"
  let ?pids = "remdups (map c_person (filter (\<lambda>c. c_unit c = u) (contracts s)))"
  let ?s2 = "?s1\<lparr>people := filter (\<lambda>p. \<not> removed_person ?pids ?s1 p) (people ?s1)\<rparr>"
  from rng have c: "delete_contracts_of_unit u s = Inr ?s1"
    by (simp add: delete_contracts_of_unit_def)
  have o: "delete_orphans ?pids ?s1 = (Inr (), ?s2)"
    by (rule delete_orphans_eq)
  have w: "delete_unit_work u s =
      exec (delete_positions_of_unit u) ?s2 (\<lambda>s3.
             exec (delete_unit_row u) s3 (\<lambda>s4. (Inr (), s4)))"
    using rng
    by (simp only: delete_unit_work_def select_persons_of_unit_def query_def
        exec_Inr [of "delete_contracts_of_unit u" s, OF c] o and_then_def
        if_False not_True_eq_False not_not sum.case prod.case)
  have use: "unit_positions_in_use ?s2 u = unit_positions_in_use ?s1 u"
    by (simp add: unit_positions_in_use_def)
  show ?thesis
  proof (cases "unit_positions_in_use ?s1 u")
    case True
    with use rng have "delete_positions_of_unit u ?s2 = Inl fk_failed"
      by (simp add: delete_positions_of_unit_def)
    then have "delete_unit_work u s = (Inl fk_failed, ?s2)"
      by (simp only: w exec_Inl [of "delete_positions_of_unit u"])
    with True rng show ?thesis
      by (simp add: delete_unit_def execute_in_transaction_eq Let_def)
  next
    case False
    let ?s3 = "?s2\<lparr>positions := filter (\<lambda>p. pos_unit p \<noteq> u) (positions ?s2)\<rparr>"
    from False use rng have p: "delete_positions_of_unit u ?s2 = Inr ?s3"
      by (simp add: delete_positions_of_unit_def)
    have "u \<notin> set (map pos_unit (positions ?s3))" "u \<notin> set (map c_unit (contracts ?s3))"
      by auto
    with rng have r: "delete_unit_row u ?s3 = Inr (?s3\<lparr>units := filter (\<lambda>r. u_id r \<noteq> u) (units ?s3)\<rparr>)"
      by (simp add: delete_unit_row_def)
    have "delete_unit_work u s =
        (Inr (), ?s3\<lparr>units := filter (\<lambda>r. u_id r \<noteq> u) (units ?s3)\<rparr>)"
      by (simp only: w exec_Inr [of "delete_positions_of_unit u", OF p]
          exec_Inr [of "delete_unit_row u", OF r])
    with False rng show ?thesis
      by (simp add: delete_unit_def execute_in_transaction_eq Let_def)
  qed
qed

lemma delete_position_cases:
  "delete_position q s =
     (if \<not> sqlite_int q then (Inl int_too_large, s)
      else let s1 = s\<lparr>contracts := filter (\<lambda>c. c_position c \<noteq> q) (contracts s)\<rparr>;
               pids = remdups (map c_person (filter (\<lambda>c. c_position c = q) (contracts s)))
           in (Inr (),
          s\<lparr>people := filter (\<lambda>p. \<not> removed_person pids s1 p) (people s),
            positions := filter (\<lambda>p. pos_id p \<noteq> q) (positions s),
            contracts := filter (\<lambda>c. c_position c \<noteq> q) (contracts s)\<rparr>))"
proof (cases "sqlite_int q")
  case False
  then show ?thesis
    by (simp add: delete_position_def execute_in_transaction_eq delete_position_work_def
        select_persons_of_position_def query_def)
next
  case rng: True
  let ?s1 = "s\<lparr>contracts := filter (\<lambda>c. c_position c \<noteq> q) (contracts s)\<rparr>"
  let ?pids = "remdups (map c_person (filter (\<lambda>c. c_position c = q) (contracts s)))"
  let ?s2 = "?s1\<lparr>people := filter (\<lambda>p. \<not> removed_person ?pids ?s1 p) (people ?s1)\<rparr>"
  from rng have c: "delete_contracts_of_position q s = Inr ?s1"
    by (simp add: delete_contracts_of_position_def)
  have o: "delete_orphans ?pids ?s1 = (Inr (), ?s2)"
    by (rule delete_orphans_eq)
  have w: "delete_position_work q s =
      exec (delete_position_row q) ?s2 (\<lambda>s3. (Inr (), s3))"
    using rng
    by (simp only: delete_position_work_def select_persons_of_position_def query_def
        exec_Inr [of "delete_contracts_of_position q" s, OF c] o and_then_def
        if_False not_True_eq_False not_not sum.case prod.case)
  have "q \<notin> set (map c_position (contracts ?s2))"
    by auto
  with rng have r: "delete_position_row q ?s2 =
      Inr (?s2\<lparr>positions := filter (\<lambda>p. pos_id p \<noteq> q) (positions ?s2)\<rparr>)"
    by (simp add: delete_position_row_def)
  have "delete_position_work q s =
      (Inr (), ?s2\<lparr>positions := filter (\<lambda>p. pos_id p \<noteq> q) (positions ?s2)\<rparr>)"
    by (simp only: w exec_Inr [of "delete_position_row q", OF r])
  with rng show ?thesis
    by (simp add: delete_position_def execute_in_transaction_eq Let_def)
qed

lemma delete_contract_cases:
  "delete_contract cid s =
     (if \<not> sqlite_int cid then (Inl int_too_large, s)
      else case find (\<lambda>c. c_id c = cid) (contracts s) of
        None \<Rightarrow> (Inr (), s)
      | Some row \<Rightarrow>
          (let s1 = s\<lparr>contracts := filter (\<lambda>c. c_id c \<noteq> cid) (contracts s)\<rparr>
           in (Inr (),
               s\<lparr>people := filter (\<lambda>p. \<not> removed_person [c_person row] s1 p) (people s),
                 contracts := filter (\<lambda>c. c_id c \<noteq> cid) (contracts s)\<rparr>)))"
proof (cases "sqlite_int cid")
  case False
  then show ?thesis
    by (simp add: delete_contract_def execute_in_transaction_eq delete_contract_work_def
        select_contract_person_def query_def)
next
  case rng: True
  show ?thesis
  proof (cases "find (\<lambda>c. c_id c = cid) (contracts s)")
    case None
    with rng show ?thesis
      by (simp add: delete_contract_def execute_in_transaction_eq delete_contract_work_def
          select_contract_person_def query_def)
  next
    case (Some row)
    let ?s1 = "s\<lparr>contracts := filter (\<lambda>c. c_id c \<noteq> cid) (contracts s)\<rparr>"
    have w: "delete_contract_work cid s = delete_orphans [c_person row] ?s1"
      using Some rng
      by (simp add: delete_contract_work_def select_contract_person_def query_def Let_def
          exec_def delete_contract_row_def split: sum.splits)
    show ?thesis
      using Some rng
      by (simp add: delete_contract_def execute_in_transaction_eq w delete_orphans_eq Let_def)
  qed
qed

section \<open>Where person rows come from\<close>

lemma create_contract_people:
  "people (snd (create_contract pl s)) =
     (if fst (create_contract pl s) = Inr ()
      then people s @ [\<lparr>p_id = next_person_id s, p_name = pl_person_name pl\<rparr>]
      else people s)"
  by (simp add: create_contract_cases created_def)

lemma edit_contract_people: "people (snd (edit_contract cid pl s)) = people s"
  by (simp add: edit_contract_cases)

lemma edit_position_people: "people (snd (edit_position q code d u s)) = people s"
  by (simp add: edit_position_cases)

lemma delete_contract_people:
  "mset (people (snd (delete_contract cid s))) \<subseteq># mset (people s)"
  by (simp add: delete_contract_cases Let_def split: option.splits)

lemma delete_unit_people:
  "mset (people (snd (delete_unit u s))) \<subseteq># mset (people s)"
  by (simp add: delete_unit_cases Let_def)

lemma delete_position_people:
  "mset (people (snd (delete_position q s))) \<subseteq># mset (people s)"
  by (simp add: delete_position_cases Let_def)

text \<open>
  Claim C9 as stated fails. On the sample roster Sam is already a person; creating a
  contract for the name Sam commits and leaves two person rows with that name, the old
  one under identifier 1 and a new one under identifier 3.
\<close>

theorem create_contract_existing_name_counterexample:
  "people_named sample_store ''Sam'' = [\<lparr>p_id = 1, p_name = ''Sam''\<rparr>] \<and>
   pl_person_name sample_payload = ''Sam'' \<and>
   fst (create_contract sample_payload sample_store) = Inr () \<and>
   people_named (snd (create_contract sample_payload sample_store)) ''Sam'' =
     [\<lparr>p_id = 1, p_name = ''Sam''\<rparr>, \<lparr>p_id = 3, p_name = ''Sam''\<rparr>]"
proof -
  have "create_contract sample_payload sample_store = (Inr (), created sample_payload sample_store)"
    by (simp add: create_contract_cases sample_next_id sample_fields sample_payload_def
        lookup_matches_def sqlite_int_def next_contract_id_def)
  then show ?thesis
    by (simp add: people_named_def created_def sample_next_id sample_fields sample_payload_def)
qed

text \<open>
  Claim C9, amended. A person row is created only as a side effect of creating a
  contract, and every committed creation creates one, whether or not the name is already
  among the people: the new row carries the submitted name under the lowest free
  identifier and is appended to the rows that were there. A creation that raises leaves
  the people as they were, editing a contract or a position leaves them as they were, and
  the three deletions add no row.
\<close>

theorem person_created_with_every_contract:
  "(fst (create_contract pl s) = Inr () \<longrightarrow>
      people (snd (create_contract pl s)) =
        people s @ [\<lparr>p_id = next_person_id s, p_name = pl_person_name pl\<rparr>]) \<and>
   (fst (create_contract pl s) \<noteq> Inr () \<longrightarrow> people (snd (create_contract pl s)) = people s) \<and>
   people (snd (edit_contract contract_id pl s)) = people s \<and>
   people (snd (edit_position position_id code description unit_id s)) = people s \<and>
   mset (people (snd (delete_contract contract_id s))) \<subseteq># mset (people s) \<and>
   mset (people (snd (delete_unit unit_id s))) \<subseteq># mset (people s) \<and>
   mset (people (snd (delete_position position_id s))) \<subseteq># mset (people s)"
  by (simp add: create_contract_people edit_contract_people edit_position_people
      delete_contract_people delete_unit_people delete_position_people)

theorem person_created_with_every_contract_witness:
  "fst (create_contract sample_payload sample_store) = Inr () \<and>
   people (snd (create_contract sample_payload sample_store)) =
     [\<lparr>p_id = 1, p_name = ''Sam''\<rparr>, \<lparr>p_id = 2, p_name = ''Alex''\<rparr>,
      \<lparr>p_id = 3, p_name = ''Sam''\<rparr>] \<and>
   fst (create_contract (sample_payload\<lparr>pl_unit_id := 2\<rparr>) sample_store) \<noteq> Inr () \<and>
   people (snd (create_contract (sample_payload\<lparr>pl_unit_id := 2\<rparr>) sample_store)) =
     [\<lparr>p_id = 1, p_name = ''Sam''\<rparr>, \<lparr>p_id = 2, p_name = ''Alex''\<rparr>]"
proof -
  have ok: "fst (create_contract sample_payload sample_store) = Inr ()"
    by (simp add: create_contract_cases sample_next_id sample_fields sample_payload_def
        lookup_matches_def sqlite_int_def next_contract_id_def)
  have bad: "fst (create_contract (sample_payload\<lparr>pl_unit_id := 2\<rparr>) sample_store) \<noteq> Inr ()"
    by (simp add: create_contract_cases sample_next_id sample_fields sample_payload_def
        lookup_matches_def sqlite_int_def next_contract_id_def)
  note a = person_created_with_every_contract [where pl = sample_payload and s = sample_store,
      THEN conjunct1, THEN mp, OF ok]
  note b = person_created_with_every_contract
      [where pl = "sample_payload\<lparr>pl_unit_id := 2\<rparr>" and s = sample_store,
      THEN conjunct2, THEN conjunct1, THEN mp, OF bad]
  from a have a': "people (snd (create_contract sample_payload sample_store)) =
     [\<lparr>p_id = 1, p_name = ''Sam''\<rparr>, \<lparr>p_id = 2, p_name = ''Alex''\<rparr>,
      \<lparr>p_id = 3, p_name = ''Sam''\<rparr>]"
    by (simp add: sample_next_id sample_fields sample_payload_def)
  from b have b': "people (snd (create_contract (sample_payload\<lparr>pl_unit_id := 2\<rparr>) sample_store)) =
     [\<lparr>p_id = 1, p_name = ''Sam''\<rparr>, \<lparr>p_id = 2, p_name = ''Alex''\<rparr>]"
    by (simp add: sample_fields)
  from ok a' bad b' show ?thesis by (intro conjI)
qed

section \<open>Deleting a unit\<close>

lemma removed_person_orphaned:
  "contracts s1 = kept \<Longrightarrow>
   removed_person (remdups (map c_person gone)) s1 p = orphaned_by gone kept p"
proof -
  assume k: "contracts s1 = kept"
  have a: "(p_id p \<in> set (remdups (map c_person gone))) = (\<exists>c \<in> set gone. c_person c = p_id p)"
    unfolding set_remdups set_map by (metis image_iff)
  have b: "(p_id p \<notin> set (map c_person kept)) = (\<forall>c \<in> set kept. c_person c \<noteq> p_id p)"
    unfolding set_map by (metis image_iff)
  show ?thesis
    by (simp only: removed_person_def orphaned_by_def count_zero_iff k a b)
qed

lemma unit_consistent_not_in_use:
  assumes "unit_consistent s"
  shows "\<not> unit_positions_in_use (s\<lparr>contracts := filter (\<lambda>c. c_unit c \<noteq> u) (contracts s)\<rparr>) u"
proof
  assume "unit_positions_in_use (s\<lparr>contracts := filter (\<lambda>c. c_unit c \<noteq> u) (contracts s)\<rparr>) u"
  then obtain c p where c: "c \<in> set (contracts s)" "c_unit c \<noteq> u"
    and p: "p \<in> set (positions s)" "pos_unit p = u" "pos_id p = c_position c"
    by (auto simp: unit_positions_in_use_def)
  from assms c(1) p(1,3) have "pos_unit p = c_unit c"
    by (simp add: unit_consistent_def)
  with p(2) c(2) show False by simp
qed

lemma delete_unit_commits:
  "unit_consistent s \<Longrightarrow> sqlite_int u \<Longrightarrow> fst (delete_unit u s) = Inr ()"
  using unit_consistent_not_in_use [of s u]
  by (simp add: delete_unit_cases Let_def)

lemma delete_unit_committed:
  assumes "fst (delete_unit u s) = Inr ()"
  shows "contracts (snd (delete_unit u s)) = filter (\<lambda>c. c_unit c \<noteq> u) (contracts s)"
    and "people (snd (delete_unit u s)) =
           filter (\<lambda>p. \<not> orphaned_by (filter (\<lambda>c. c_unit c = u) (contracts s))
                                       (filter (\<lambda>c. c_unit c \<noteq> u) (contracts s)) p) (people s)"
    and "positions (snd (delete_unit u s)) = filter (\<lambda>p. pos_unit p \<noteq> u) (positions s)"
    and "units (snd (delete_unit u s)) = filter (\<lambda>r. u_id r \<noteq> u) (units s)"
    and "contract_seq (snd (delete_unit u s)) = contract_seq s"
proof -
  show "contracts (snd (delete_unit u s)) = filter (\<lambda>c. c_unit c \<noteq> u) (contracts s)"
    using assms unfolding delete_unit_cases by (simp add: Let_def split: if_split_asm)
  show "people (snd (delete_unit u s)) =
           filter (\<lambda>p. \<not> orphaned_by (filter (\<lambda>c. c_unit c = u) (contracts s))
                                       (filter (\<lambda>c. c_unit c \<noteq> u) (contracts s)) p) (people s)"
    using assms unfolding delete_unit_cases
    by (simp add: Let_def removed_person_orphaned split: if_split_asm)
  show "positions (snd (delete_unit u s)) = filter (\<lambda>p. pos_unit p \<noteq> u) (positions s)"
    using assms unfolding delete_unit_cases by (simp add: Let_def split: if_split_asm)
  show "units (snd (delete_unit u s)) = filter (\<lambda>r. u_id r \<noteq> u) (units s)"
    using assms unfolding delete_unit_cases by (simp add: Let_def split: if_split_asm)
  show "contract_seq (snd (delete_unit u s)) = contract_seq s"
    using assms unfolding delete_unit_cases by (simp add: Let_def split: if_split_asm)
qed

lemma delete_unit_rolled_back:
  "fst (delete_unit u s) \<noteq> Inr () \<longrightarrow> snd (delete_unit u s) = s"
  by (simp add: delete_unit_cases Let_def)

lemma delete_unit_steps:
  assumes "unit_consistent s" "sqlite_int u"
  shows "\<exists>person_ids s1 s2 s3 s4.
           select_persons_of_unit s u = Inr person_ids \<and>
           delete_contracts_of_unit u s = Inr s1 \<and>
           delete_orphans person_ids s1 = (Inr (), s2) \<and>
           delete_positions_of_unit u s2 = Inr s3 \<and>
           delete_unit_row u s3 = Inr s4 \<and>
           delete_unit u s = (Inr (), s4)"
proof -
  let ?s1 = "s\<lparr>contracts := filter (\<lambda>c. c_unit c \<noteq> u) (contracts s)\<rparr>"
  let ?pids = "remdups (map c_person (filter (\<lambda>c. c_unit c = u) (contracts s)))"
  let ?s2 = "?s1\<lparr>people := filter (\<lambda>p. \<not> removed_person ?pids ?s1 p) (people ?s1)\<rparr>"
  let ?s3 = "?s2\<lparr>positions := filter (\<lambda>p. pos_unit p \<noteq> u) (positions ?s2)\<rparr>"
  let ?s4 = "?s3\<lparr>units := filter (\<lambda>r. u_id r \<noteq> u) (units ?s3)\<rparr>"
  from assms(2) have q: "select_persons_of_unit s u = Inr ?pids"
    by (simp add: select_persons_of_unit_def)
  from assms(2) have c: "delete_contracts_of_unit u s = Inr ?s1"
    by (simp add: delete_contracts_of_unit_def)
  have o: "delete_orphans ?pids ?s1 = (Inr (), ?s2)"
    by (rule delete_orphans_eq)
  have "unit_positions_in_use ?s2 u = unit_positions_in_use ?s1 u"
    by (simp add: unit_positions_in_use_def)
  with unit_consistent_not_in_use [OF assms(1), of u] assms(2)
  have p: "delete_positions_of_unit u ?s2 = Inr ?s3"
    by (simp add: delete_positions_of_unit_def)
  have "u \<notin> set (map pos_unit (positions ?s3))" "u \<notin> set (map c_unit (contracts ?s3))"
    by auto
  with assms(2) have r: "delete_unit_row u ?s3 = Inr ?s4"
    by (simp add: delete_unit_row_def)
  have "delete_unit_work u s = (Inr (), ?s4)"
    by (simp only: delete_unit_work_def query_def q sum.case
        exec_Inr [of "delete_contracts_of_unit u" s, OF c] o and_then_def prod.case
        exec_Inr [of "delete_positions_of_unit u", OF p]
        exec_Inr [of "delete_unit_row u", OF r])
  then have d: "delete_unit u s = (Inr (), ?s4)"
    by (simp only: delete_unit_def execute_in_transaction_eq prod.case sum.case)
  from q c o p r d show ?thesis by blast
qed

text \<open>
  Claim C4. Deleting a unit of a roster that satisfies invariant 1, under a key that
  the store can hold, commits, and its statements succeed one after the other in the
  order contracts, orphaned people, positions, unit: each runs on the store the one
  before it left. Whenever the deletion commits, the contracts that remain are those
  of other units, the people that remain are all but those orphaned by the removal
  of the unit's contracts, the positions that remain are those of other units, the
  units that remain are all but the deleted one, and every row that remains is as it
  was. A deletion that raises leaves the store as it was.
\<close>

theorem delete_unit_cascade:
  "(unit_consistent s \<and> sqlite_int unit_id \<longrightarrow>
      (\<exists>person_ids s1 s2 s3 s4.
          select_persons_of_unit s unit_id = Inr person_ids \<and>
          delete_contracts_of_unit unit_id s = Inr s1 \<and>
          delete_orphans person_ids s1 = (Inr (), s2) \<and>
          delete_positions_of_unit unit_id s2 = Inr s3 \<and>
          delete_unit_row unit_id s3 = Inr s4 \<and>
          delete_unit unit_id s = (Inr (), s4))) \<and>
   (fst (delete_unit unit_id s) = Inr () \<longrightarrow>
      contracts (snd (delete_unit unit_id s)) =
        filter (\<lambda>c. c_unit c \<noteq> unit_id) (contracts s) \<and>
      people (snd (delete_unit unit_id s)) =
        filter (\<lambda>p. \<not> orphaned_by (filter (\<lambda>c. c_unit c = unit_id) (contracts s))
                                    (filter (\<lambda>c. c_unit c \<noteq> unit_id) (contracts s)) p)
          (people s) \<and>
      positions (snd (delete_unit unit_id s)) =
        filter (\<lambda>p. pos_unit p \<noteq> unit_id) (positions s) \<and>
      units (snd (delete_unit unit_id s)) = filter (\<lambda>r. u_id r \<noteq> unit_id) (units s) \<and>
      contract_seq (snd (delete_unit unit_id s)) = contract_seq s) \<and>
   (fst (delete_unit unit_id s) \<noteq> Inr () \<longrightarrow> snd (delete_unit unit_id s) = s)"
proof (intro conjI impI)
  assume "unit_consistent s \<and> sqlite_int unit_id"
  then show "\<exists>person_ids s1 s2 s3 s4.
          select_persons_of_unit s unit_id = Inr person_ids \<and>
          delete_contracts_of_unit unit_id s = Inr s1 \<and>
          delete_orphans person_ids s1 = (Inr (), s2) \<and>
          delete_positions_of_unit unit_id s2 = Inr s3 \<and>
          delete_unit_row unit_id s3 = Inr s4 \<and>
          delete_unit unit_id s = (Inr (), s4)"
    using delete_unit_steps [of s unit_id] by simp
next
  assume "fst (delete_unit unit_id s) \<noteq> Inr ()"
  with delete_unit_rolled_back [of unit_id s] show "snd (delete_unit unit_id s) = s"
    by simp
qed (rule delete_unit_committed, assumption)+

text \<open>
  On the sample roster unit 1 owns the quarterback position, which Sam's only contract
  refers to: deleting unit 1 removes that contract, Sam, the position and the unit,
  and leaves Alex, the linebacker position, unit 2 and Alex's contract as they were.
\<close>

theorem delete_unit_cascade_witness:
  "unit_consistent sample_store \<and> sqlite_int 1 \<and>
   delete_unit 1 sample_store =
     (Inr (),
      \<lparr>people = [\<lparr>p_id = 2, p_name = ''Alex''\<rparr>],
       units = [\<lparr>u_id = 2, u_name = ''Defense''\<rparr>],
       positions = [\<lparr>pos_id = 2, pos_code = ''LB'', pos_description = ''Linebacker'', pos_unit = 2\<rparr>],
       contracts = [\<lparr>c_id = 2, c_person = 2, c_position = 2, c_unit = 2, c_start = ''2024-01-01'',
                      c_end = ''2024-06-01'', c_years = 1, c_salary = 5, c_cap_hit = 4\<rparr>],
       contract_seq = 2\<rparr>)"
proof -
  have inv: "unit_consistent sample_store"
    by (simp add: unit_consistent_def sample_fields)
  have rng: "sqlite_int 1"
    by (simp add: sqlite_int_def)
  from delete_unit_cascade [of sample_store 1, THEN conjunct1] inv rng
  obtain s4 where d: "delete_unit 1 sample_store = (Inr (), s4)"
    by blast
  then have ok: "fst (delete_unit 1 sample_store) = Inr ()"
    by simp
  note parts = delete_unit_cascade [of sample_store 1, THEN conjunct2, THEN conjunct1, THEN mp, OF ok]
  have "s4 = \<lparr>people = people s4, units = units s4, positions = positions s4,
              contracts = contracts s4, contract_seq = contract_seq s4\<rparr>"
    by simp
  also have "people s4 = [\<lparr>p_id = 2, p_name = ''Alex''\<rparr>]"
    using parts [THEN conjunct2, THEN conjunct1] d
    by (simp add: sample_fields orphaned_by_def)
  also have "units s4 = [\<lparr>u_id = 2, u_name = ''Defense''\<rparr>]"
    using parts [THEN conjunct2, THEN conjunct2, THEN conjunct2, THEN conjunct1] d
    by (simp add: sample_fields)
  also have "positions s4 = [\<lparr>pos_id = 2, pos_code = ''LB'', pos_description = ''Linebacker'', pos_unit = 2\<rparr>]"
    using parts [THEN conjunct2, THEN conjunct2, THEN conjunct1] d
    by (simp add: sample_fields)
  also have "contracts s4 = [\<lparr>c_id = 2, c_person = 2, c_position = 2, c_unit = 2, c_start = ''2024-01-01'',
                      c_end = ''2024-06-01'', c_years = 1, c_salary = 5, c_cap_hit = 4\<rparr>]"
    using parts [THEN conjunct1] d
    by (simp add: sample_fields)
  also have "contract_seq s4 = 2"
    using parts [THEN conjunct2, THEN conjunct2, THEN conjunct2, THEN conjunct2] d
    by (simp add: sample_fields)
  finally show ?thesis using inv rng d by simp
qed

section \<open>The deletions leave no person without a contract\<close>









section \<open>Validation of the dates and the years\<close>

lemma try_numeric_accepts:
  "(snd (try_numeric v errors rest) = []) = (\<exists>x. v = Some x \<and> snd (rest x) = [])"
  by (cases v) (simp_all add: try_numeric_def)

lemma person_field_errors:
  "(snd (snd (person_field lib form editing)) = []) =
     (if editing then submitted form ''person_id'' (py_int lib)
      else py_strip lib (case form ''person_name'' of None \<Rightarrow> [] | Some t \<Rightarrow> t) \<noteq> [])"
  by (simp add: person_field_def submitted_def truthy_def Let_def split: option.splits)

lemma convert_submitted:
  "truthy raw \<Longrightarrow> (\<exists>x. convert parse raw = Some x) = (\<exists>t. raw = Some t \<and> t \<noteq> [] \<and> parse t \<noteq> None)"
  by (auto simp: convert_def truthy_def split: option.splits)

lemma convert_years:
  "truthy raw \<Longrightarrow> convert parse raw = Some x \<Longrightarrow> x \<noteq> None"
  by (auto simp: convert_def truthy_def split: option.splits if_splits)

lemma dates_accept:
  "(snd (case parse_date lib start_date of
           None \<Rightarrow> (None :: 'p option, errors @ [''Dates must be valid (YYYY-MM-DD).''])
         | Some start_dt \<Rightarrow>
             (case parse_date lib end_date of
                None \<Rightarrow> (None, errors @ [''Dates must be valid (YYYY-MM-DD).''])
              | Some end_dt \<Rightarrow>
                  if date_less end_dt start_dt
                  then (None, errors @ [''End date cannot be before start date.''])
                  else
                    if years \<noteq> Some (max 1 (d_year end_dt - d_year start_dt))
                    then (None, errors @ [''Years must equal '' @
                                          show_int (max 1 (d_year end_dt - d_year start_dt)) @
                                          '' based on start/end date.''])
                    else (Some (payload start_dt end_dt), errors))) = []) =
     (errors = [] \<and>
      (\<exists>start_dt end_dt. parse_date lib start_date = Some start_dt \<and>
          parse_date lib end_date = Some end_dt \<and> \<not> date_less end_dt start_dt \<and>
          years = Some (max 1 (d_year end_dt - d_year start_dt))))"
  by (simp split: option.splits)

lemma validate_accepts:
  "(snd (validate_contract_payload lib form editing) = []) =
     (snd (snd (person_field lib form editing)) = [] \<and>
      truthy (form ''position_id'') \<and> truthy (form ''unit_id'') \<and>
      truthy (form ''start_date'') \<and> truthy (form ''end_date'') \<and>
      truthy (form ''years'') \<and> truthy (form ''salary_millions'') \<and>
      truthy (form ''cap_hit_millions'') \<and>
      (\<exists>x. convert (py_int lib) (form ''position_id'') = Some x) \<and>
      (\<exists>x. convert (py_int lib) (form ''unit_id'') = Some x) \<and>
      (\<exists>x. convert (py_float lib) (form ''salary_millions'') = Some x) \<and>
      (\<exists>x. convert (py_float lib) (form ''cap_hit_millions'') = Some x) \<and>
      (\<exists>start_dt end_dt.
          parse_date lib (form ''start_date'') = Some start_dt \<and>
          parse_date lib (form ''end_date'') = Some end_dt \<and>
          \<not> date_less end_dt start_dt \<and>
          convert (py_int lib) (form ''years'') =
            Some (Some (max 1 (d_year end_dt - d_year start_dt)))))"
proof -
  obtain person_name person_id errors0
    where pf: "person_field lib form editing = (person_name, person_id, errors0)"
    by (cases "person_field lib form editing") auto
  have "(snd (validate_contract_payload lib form editing) = []) =
     (\<exists>a. convert (py_int lib) (form ''position_id'') = Some a \<and>
      (\<exists>b. convert (py_int lib) (form ''unit_id'') = Some b \<and>
      (\<exists>y. convert (py_int lib) (form ''years'') = Some y \<and>
      (\<exists>c. convert (py_float lib) (form ''salary_millions'') = Some c \<and>
      (\<exists>d. convert (py_float lib) (form ''cap_hit_millions'') = Some d \<and>
         errors0 @
            (if \<not> (truthy (form ''position_id'') \<and> truthy (form ''unit_id'') \<and>
                    truthy (form ''start_date'') \<and> truthy (form ''end_date'') \<and>
                    truthy (form ''years'') \<and> truthy (form ''salary_millions'') \<and>
                    truthy (form ''cap_hit_millions''))
             then [''All fields are required.''] else []) = [] \<and>
         (\<exists>start_dt end_dt. parse_date lib (form ''start_date'') = Some start_dt \<and>
            parse_date lib (form ''end_date'') = Some end_dt \<and> \<not> date_less end_dt start_dt \<and>
            y = Some (max 1 (d_year end_dt - d_year start_dt))))))))"
    by (simp only: validate_contract_payload_def pf prod.case Let_def try_numeric_accepts
        dates_accept)
  also have "\<dots> = (errors0 = [] \<and>
      truthy (form ''position_id'') \<and> truthy (form ''unit_id'') \<and>
      truthy (form ''start_date'') \<and> truthy (form ''end_date'') \<and>
      truthy (form ''years'') \<and> truthy (form ''salary_millions'') \<and>
      truthy (form ''cap_hit_millions'') \<and>
      (\<exists>x. convert (py_int lib) (form ''position_id'') = Some x) \<and>
      (\<exists>x. convert (py_int lib) (form ''unit_id'') = Some x) \<and>
      (\<exists>x. convert (py_float lib) (form ''salary_millions'') = Some x) \<and>
      (\<exists>x. convert (py_float lib) (form ''cap_hit_millions'') = Some x) \<and>
      (\<exists>start_dt end_dt.
          parse_date lib (form ''start_date'') = Some start_dt \<and>
          parse_date lib (form ''end_date'') = Some end_dt \<and>
          \<not> date_less end_dt start_dt \<and>
          convert (py_int lib) (form ''years'') =
            Some (Some (max 1 (d_year end_dt - d_year start_dt)))))"
    by (simp split: if_splits) blast
  finally show ?thesis
    by (simp add: pf)
qed

lemma submitted_iff:
  "submitted form k parse = (truthy (form k) \<and> (\<exists>x. convert parse (form k) = Some x))"
  by (auto simp: submitted_def truthy_def convert_def split: option.splits)

lemma validate_accepts_fields:
  "(snd (validate_contract_payload lib form editing) = []) =
     (other_fields_ok lib form editing \<and>
      (\<exists>start_dt end_dt years. triple_reads lib form start_dt end_dt years \<and>
          \<not> date_less end_dt start_dt \<and> years = max 1 (d_year end_dt - d_year start_dt)))"
  unfolding validate_accepts person_field_errors other_fields_ok_def triple_reads_def
    submitted_iff
  by auto

lemma triple_reads_unique:
  "triple_reads lib form a b y \<Longrightarrow> triple_reads lib form a' b' y' \<Longrightarrow>
     a' = a \<and> b' = b \<and> y' = y"
  by (simp add: triple_reads_def)

text \<open>
  Claim C6. Let the fields of the form other than the two dates and the years be
  acceptable, and let the library read the submitted dates as \<open>start_dt\<close> and
  \<open>end_dt\<close> and the submitted years as the integer \<open>years\<close>. Then validation reports
  no error exactly when the end date is not before the start date and \<open>years\<close> is
  the larger of 1 and the difference of the two calendar years. A form that validation
  accepts has acceptable other fields and dates and years that the library reads.
\<close>

theorem validate_accepts_dates_and_years:
  "(other_fields_ok lib form editing \<and> triple_reads lib form start_dt end_dt years \<longrightarrow>
      (snd (validate_contract_payload lib form editing) = []) =
        (\<not> date_less end_dt start_dt \<and> years = max 1 (d_year end_dt - d_year start_dt))) \<and>
   (snd (validate_contract_payload lib form editing) = [] \<longrightarrow>
      other_fields_ok lib form editing \<and>
      (\<exists>start_dt end_dt years. triple_reads lib form start_dt end_dt years))"
proof (intro conjI impI)
  assume h: "other_fields_ok lib form editing \<and> triple_reads lib form start_dt end_dt years"
  show "(snd (validate_contract_payload lib form editing) = []) =
        (\<not> date_less end_dt start_dt \<and> years = max 1 (d_year end_dt - d_year start_dt))"
  proof
    assume "snd (validate_contract_payload lib form editing) = []"
    then obtain a b y where t: "triple_reads lib form a b y"
      and c: "\<not> date_less b a" "y = max 1 (d_year b - d_year a)"
      unfolding validate_accepts_fields by blast
    from h t have "a = start_dt \<and> b = end_dt \<and> y = years"
      using triple_reads_unique by blast
    with c show "\<not> date_less end_dt start_dt \<and> years = max 1 (d_year end_dt - d_year start_dt)"
      by simp
  next
    assume "\<not> date_less end_dt start_dt \<and> years = max 1 (d_year end_dt - d_year start_dt)"
    with h show "snd (validate_contract_payload lib form editing) = []"
      unfolding validate_accepts_fields by blast
  qed
next
  assume "snd (validate_contract_payload lib form editing) = []"
  then show "other_fields_ok lib form editing"
    unfolding validate_accepts_fields by blast
next
  assume "snd (validate_contract_payload lib form editing) = []"
  then show "\<exists>start_dt end_dt years. triple_reads lib form start_dt end_dt years"
    unfolding validate_accepts_fields by blast
qed

text \<open>
  The examples of the specification, on the library for plain numerals and ISO dates:
  from 2024-03-01 to 2026-03-01 the years must be 2 (1 and 3 are refused), from
  2024-01-01 to 2024-06-01 they must be 1 (2 is refused), and an end date before the
  start date is refused.
\<close>

theorem validate_accepts_dates_and_years_witness:
  "other_fields_ok plain_lib (sample_form ''2024-03-01'' ''2026-03-01'' ''2'') False \<and>
   triple_reads plain_lib (sample_form ''2024-03-01'' ''2026-03-01'' ''2'')
     \<lparr>d_year = 2024, d_month = 3, d_day = 1\<rparr> \<lparr>d_year = 2026, d_month = 3, d_day = 1\<rparr> 2 \<and>
   snd (validate_contract_payload plain_lib
          (sample_form ''2024-03-01'' ''2026-03-01'' ''2'') False) = [] \<and>
   snd (validate_contract_payload plain_lib
          (sample_form ''2024-03-01'' ''2026-03-01'' ''1'') False) \<noteq> [] \<and>
   snd (validate_contract_payload plain_lib
          (sample_form ''2024-03-01'' ''2026-03-01'' ''3'') False) \<noteq> [] \<and>
   snd (validate_contract_payload plain_lib
          (sample_form ''2024-01-01'' ''2024-06-01'' ''1'') False) = [] \<and>
   snd (validate_contract_payload plain_lib
          (sample_form ''2024-01-01'' ''2024-06-01'' ''2'') False) \<noteq> [] \<and>
   snd (validate_contract_payload plain_lib
          (sample_form ''2024-06-01'' ''2024-01-01'' ''1'') False) \<noteq> []"
proof -
  let ?mar24 = "\<lparr>d_year = 2024, d_month = 3, d_day = 1\<rparr>"
  let ?mar26 = "\<lparr>d_year = 2026, d_month = 3, d_day = 1\<rparr>"
  let ?jan24 = "\<lparr>d_year = 2024, d_month = 1, d_day = 1\<rparr>"
  let ?jun24 = "\<lparr>d_year = 2024, d_month = 6, d_day = 1\<rparr>"
  have o1: "other_fields_ok plain_lib (sample_form ''2024-03-01'' ''2026-03-01'' ''2'') False"
    by code_simp
  have o2: "other_fields_ok plain_lib (sample_form ''2024-03-01'' ''2026-03-01'' ''1'') False"
    by code_simp
  have o3: "other_fields_ok plain_lib (sample_form ''2024-03-01'' ''2026-03-01'' ''3'') False"
    by code_simp
  have o4: "other_fields_ok plain_lib (sample_form ''2024-01-01'' ''2024-06-01'' ''1'') False"
    by code_simp
  have o5: "other_fields_ok plain_lib (sample_form ''2024-01-01'' ''2024-06-01'' ''2'') False"
    by code_simp
  have o6: "other_fields_ok plain_lib (sample_form ''2024-06-01'' ''2024-01-01'' ''1'') False"
    by code_simp
  have t1: "triple_reads plain_lib (sample_form ''2024-03-01'' ''2026-03-01'' ''2'') ?mar24 ?mar26 2"
    by code_simp
  have t2: "triple_reads plain_lib (sample_form ''2024-03-01'' ''2026-03-01'' ''1'') ?mar24 ?mar26 1"
    by code_simp
  have t3: "triple_reads plain_lib (sample_form ''2024-03-01'' ''2026-03-01'' ''3'') ?mar24 ?mar26 3"
    by code_simp
  have t4: "triple_reads plain_lib (sample_form ''2024-01-01'' ''2024-06-01'' ''1'') ?jan24 ?jun24 1"
    by code_simp
  have t5: "triple_reads plain_lib (sample_form ''2024-01-01'' ''2024-06-01'' ''2'') ?jan24 ?jun24 2"
    by code_simp
  have t6: "triple_reads plain_lib (sample_form ''2024-06-01'' ''2024-01-01'' ''1'') ?jun24 ?jan24 1"
    by code_simp
  have a1: "snd (validate_contract_payload plain_lib
          (sample_form ''2024-03-01'' ''2026-03-01'' ''2'') False) = []"
    using validate_accepts_dates_and_years [THEN conjunct1, THEN mp, OF conjI, OF o1 t1]
    by (simp add: date_less_def)
  have a2: "snd (validate_contract_payload plain_lib
          (sample_form ''2024-03-01'' ''2026-03-01'' ''1'') False) \<noteq> []"
    using validate_accepts_dates_and_years [THEN conjunct1, THEN mp, OF conjI, OF o2 t2]
    by (simp add: date_less_def)
  have a3: "snd (validate_contract_payload plain_lib
          (sample_form ''2024-03-01'' ''2026-03-01'' ''3'') False) \<noteq> []"
    using validate_accepts_dates_and_years [THEN conjunct1, THEN mp, OF conjI, OF o3 t3]
    by (simp add: date_less_def)
  have a4: "snd (validate_contract_payload plain_lib
          (sample_form ''2024-01-01'' ''2024-06-01'' ''1'') False) = []"
    using validate_accepts_dates_and_years [THEN conjunct1, THEN mp, OF conjI, OF o4 t4]
    by (simp add: date_less_def)
  have a5: "snd (validate_contract_payload plain_lib
          (sample_form ''2024-01-01'' ''2024-06-01'' ''2'') False) \<noteq> []"
    using validate_accepts_dates_and_years [THEN conjunct1, THEN mp, OF conjI, OF o5 t5]
    by (simp add: date_less_def)
  have a6: "snd (validate_contract_payload plain_lib
          (sample_form ''2024-06-01'' ''2024-01-01'' ''1'') False) \<noteq> []"
    using validate_accepts_dates_and_years [THEN conjunct1, THEN mp, OF conjI, OF o6 t6]
    by (simp add: date_less_def)
  note fields = validate_accepts_dates_and_years [THEN conjunct2, THEN mp, OF a1, THEN conjunct1]
  from fields t1 a1 a2 a3 a4 a5 a6 show ?thesis by (intro conjI)
qed

section \<open>The statistics of the report describe the rows it lists\<close>

lemma where_holds_build_filter:
  "where_holds (fst (build_filter u q lo hi)) (snd (build_filter u q lo hi)) c =
     matches u q lo hi c"
  by (cases u; cases q; cases lo; cases hi)
     (auto simp: build_filter_def add_filter_def where_holds_def condition_holds_def
        column_compare_def matches_def)

lemma bindable_build_filter:
  "list_all bindable (snd (build_filter u q lo hi)) = (filter_in_range u \<and> filter_in_range q)"
  by (cases u; cases q; cases lo; cases hi)
     (auto simp: build_filter_def add_filter_def bindable_def filter_in_range_def)

lemma joined_unique:
  "distinct (map key xs) \<Longrightarrow> k \<in> set (map key xs) \<Longrightarrow> \<exists>x. joined key k xs = [x]"
proof (induction xs)
  case Nil
  then show ?case by simp
next
  case (Cons a xs)
  show ?case
  proof (cases "k = key a")
    case True
    with Cons.prems(1) have "filter (\<lambda>r. k = key r) xs = []"
      by (auto simp: filter_empty_conv)
    with True show ?thesis by (simp add: joined_def)
  next
    case False
    with Cons show ?thesis by (simp add: joined_def)
  qed
qed

lemma listing_contracts:
  assumes "distinct (map p_id ps)" "distinct (map pos_id qs)" "distinct (map u_id us)"
    and "\<forall>c \<in> set cs. c_person c \<in> set (map p_id ps) \<and>
           c_position c \<in> set (map pos_id qs) \<and> c_unit c \<in> set (map u_id us)"
  shows "map r_contract
           [\<lparr>r_contract = c, r_person = p, r_position = pos, r_unit = u\<rparr>.
              c \<leftarrow> cs, p \<leftarrow> joined p_id (c_person c) ps,
              pos \<leftarrow> joined pos_id (c_position c) qs,
              u \<leftarrow> joined u_id (c_unit c) us, W c] = filter W cs"
  using assms(4)
proof (induction cs)
  case Nil
  show ?case by simp
next
  case (Cons c cs)
  from Cons.prems have r: "c_person c \<in> set (map p_id ps)"
    "c_position c \<in> set (map pos_id qs)" "c_unit c \<in> set (map u_id us)"
    by simp_all
  from joined_unique [OF assms(1) r(1)] obtain p where p: "joined p_id (c_person c) ps = [p]" ..
  from joined_unique [OF assms(2) r(2)] obtain q where q: "joined pos_id (c_position c) qs = [q]" ..
  from joined_unique [OF assms(3) r(3)] obtain u where u: "joined u_id (c_unit c) us = [u]" ..
  from Cons.prems have "\<forall>c \<in> set cs. c_person c \<in> set (map p_id ps) \<and>
           c_position c \<in> set (map pos_id qs) \<and> c_unit c \<in> set (map u_id us)"
    by simp
  from Cons.IH [OF this] show ?case
    by (simp add: p q u)
qed

lemma stats_contracts:
  assumes "distinct (map p_id ps)"
    and "\<forall>c \<in> set cs. c_person c \<in> set (map p_id ps)"
  shows "[c. c \<leftarrow> cs, p \<leftarrow> joined p_id (c_person c) ps, W c] = filter W cs"
  using assms(2)
proof (induction cs)
  case Nil
  show ?case by simp
next
  case (Cons c cs)
  from Cons.prems have "c_person c \<in> set (map p_id ps)" by simp
  from joined_unique [OF assms(1) this] obtain p where p: "joined p_id (c_person c) ps = [p]" ..
  from Cons.prems have "\<forall>c \<in> set cs. c_person c \<in> set (map p_id ps)" by simp
  from Cons.IH [OF this] show ?case
    by (simp add: p)
qed

lemma aggregates_of_permutation:
  assumes "mset xs = mset ys"
  shows "length xs = length ys"
    and "sql_avg (map f xs) = sql_avg (map f ys)"
    and "sql_sum (map f xs) = sql_sum (map f ys)"
proof -
  from assms show l: "length xs = length ys"
    by (rule mset_eq_length)
  from assms have "mset (map f xs) = mset (map f ys)"
    by simp
  then have "sum_mset (mset (map f xs)) = sum_mset (mset (map f ys))"
    by simp
  then have s: "sum_list (map f xs) = sum_list (map f ys)"
    by (simp only: sum_mset_sum_list)
  from l have e: "(xs = []) = (ys = [])" by auto
  show "sql_avg (map f xs) = sql_avg (map f ys)"
    by (simp add: sql_avg_def s l e)
  show "sql_sum (map f xs) = sql_sum (map f ys)"
    by (simp add: sql_sum_def s e)
qed

lemma report_in_range:
  assumes "keys_and_references s" "filter_in_range fu" "filter_in_range fq"
  shows "\<exists>rows. report s fu fq lo hi =
           Inr (rows,
                \<lparr>count_contracts = length (filter (matches fu fq lo hi) (contracts s)),
                 avg_salary = sql_avg (map c_salary (filter (matches fu fq lo hi) (contracts s))),
                 avg_cap_hit = sql_avg (map c_cap_hit (filter (matches fu fq lo hi) (contracts s))),
                 total_cap_hit = sql_sum (map c_cap_hit (filter (matches fu fq lo hi) (contracts s)))\<rparr>) \<and>
           mset (map r_contract rows) = mset (filter (matches fu fq lo hi) (contracts s))"
proof -
  obtain conditions params where b: "build_filter fu fq lo hi = (conditions, params)"
    by (cases "build_filter fu fq lo hi") auto
  from where_holds_build_filter [of fu fq lo hi] b
  have w: "where_holds conditions params = matches fu fq lo hi"
    by (simp add: fun_eq_iff)
  from bindable_build_filter [of fu fq lo hi] b assms(2,3)
  have bind: "list_all bindable params"
    by simp
  from assms(1) have k: "distinct (map p_id (people s))" "distinct (map pos_id (positions s))"
    "distinct (map u_id (units s))"
    and r: "\<forall>c \<in> set (contracts s). c_person c \<in> set (map p_id (people s)) \<and>
           c_position c \<in> set (map pos_id (positions s)) \<and>
           c_unit c \<in> set (map u_id (units s))"
    by (simp_all add: keys_and_references_def)
  let ?L = "[\<lparr>r_contract = c, r_person = p, r_position = pos, r_unit = u\<rparr>.
              c \<leftarrow> contracts s, p \<leftarrow> joined p_id (c_person c) (people s),
              pos \<leftarrow> joined pos_id (c_position c) (positions s),
              u \<leftarrow> joined u_id (c_unit c) (units s), matches fu fq lo hi c]"
  have l: "map r_contract ?L = filter (matches fu fq lo hi) (contracts s)"
    using k r by (rule listing_contracts)
  from r have "\<forall>c \<in> set (contracts s). c_person c \<in> set (map p_id (people s))"
    by simp
  with k(1) have st: "stats_rows s conditions params = filter (matches fu fq lo hi) (contracts s)"
    unfolding stats_rows_def w by (rule stats_contracts)
  have cq: "contracts_query s conditions params = Inr (sort_key (\<lambda>r. p_id (r_person r)) ?L)"
    using bind by (simp add: contracts_query_def w)
  have sq: "stats_query s conditions params =
      Inr \<lparr>count_contracts = length (filter (matches fu fq lo hi) (contracts s)),
           avg_salary = sql_avg (map c_salary (filter (matches fu fq lo hi) (contracts s))),
           avg_cap_hit = sql_avg (map c_cap_hit (filter (matches fu fq lo hi) (contracts s))),
           total_cap_hit = sql_sum (map c_cap_hit (filter (matches fu fq lo hi) (contracts s)))\<rparr>"
    using bind by (simp add: stats_query_def st Let_def)
  have rep: "report s fu fq lo hi =
      Inr (sort_key (\<lambda>r. p_id (r_person r)) ?L,
           \<lparr>count_contracts = length (filter (matches fu fq lo hi) (contracts s)),
            avg_salary = sql_avg (map c_salary (filter (matches fu fq lo hi) (contracts s))),
            avg_cap_hit = sql_avg (map c_cap_hit (filter (matches fu fq lo hi) (contracts s))),
            total_cap_hit = sql_sum (map c_cap_hit (filter (matches fu fq lo hi) (contracts s)))\<rparr>)"
    by (simp only: report_def b prod.case cq sq sum.case)
  have "mset (map r_contract (sort_key (\<lambda>r. p_id (r_person r)) ?L)) = mset (map r_contract ?L)"
    by simp
  with l have "mset (map r_contract (sort_key (\<lambda>r. p_id (r_person r)) ?L)) =
      mset (filter (matches fu fq lo hi) (contracts s))"
    by (simp only:)
  with rep show ?thesis by blast
qed

lemma report_out_of_range:
  "\<not> (filter_in_range u \<and> filter_in_range q) \<Longrightarrow> report s u q lo hi = Inl int_too_large"
proof -
  assume a: "\<not> (filter_in_range u \<and> filter_in_range q)"
  obtain conditions params where b: "build_filter u q lo hi = (conditions, params)"
    by (cases "build_filter u q lo hi") auto
  from bindable_build_filter [of u q lo hi] b a have "\<not> list_all bindable params"
    by simp
  then have "contracts_query s conditions params = Inl int_too_large"
    by (simp add: contracts_query_def)
  then show ?thesis
    by (simp only: report_def b prod.case sum.case)
qed

text \<open>
  Claim C8 as stated fails for a filter that cannot be bound. No contract of the sample
  roster is in unit \<open>2\<^sup>6\<^sup>3\<close>, so zero rows match; the report for that unit does
  not return a count of 0: the listing query raises \<^verbatim>\<open>OverflowError\<close>.
\<close>

theorem report_unbindable_filter_counterexample:
  "filter (matches (Some 9223372036854775808) None None None) (contracts sample_store) = [] \<and>
   report sample_store (Some 9223372036854775808) None None None =
     Inl (OverflowError ''Python int too large to convert to SQLite INTEGER'')"
proof -
  have "\<not> (filter_in_range (Some 9223372036854775808) \<and> filter_in_range None)"
    by (simp add: filter_in_range_def sqlite_int_def)
  then have "report sample_store (Some 9223372036854775808) None None None = Inl int_too_large"
    by (rule report_out_of_range)
  then show ?thesis
    by (simp add: int_too_large_def matches_def sample_fields)
qed

text \<open>
  Claim C8, amended. On a store whose keys are unique and whose contracts refer to rows
  that exist, and for integer filters within the 64-bit range, the report returns a
  listing and a statistics row such that: the contracts listed are exactly the contracts
  of the store that satisfy the present filters, each once; the count is the number of
  rows listed; the two averages and the total are those of the salaries and cap hits of
  the rows listed, and are \<^verbatim>\<open>NULL\<close> when no row is listed, in which case the summary
  shows the text for no data. An integer filter outside the range makes the report
  raise \<^verbatim>\<open>OverflowError\<close>.
\<close>

theorem report_statistics_describe_listing:
  "(keys_and_references s \<and> filter_in_range unit_id \<and> filter_in_range position_id \<longrightarrow>
      (\<exists>rows st.
         report s unit_id position_id min_salary max_salary = Inr (rows, st) \<and>
         mset (map r_contract rows) =
           mset (filter (matches unit_id position_id min_salary max_salary) (contracts s)) \<and>
         count_contracts st = length rows \<and>
         avg_salary st =
           (if rows = [] then None
            else Some (sum_list (map (\<lambda>r. c_salary (r_contract r)) rows) / real (length rows))) \<and>
         avg_cap_hit st =
           (if rows = [] then None
            else Some (sum_list (map (\<lambda>r. c_cap_hit (r_contract r)) rows) / real (length rows))) \<and>
         total_cap_hit st =
           (if rows = [] then None
            else Some (sum_list (map (\<lambda>r. c_cap_hit (r_contract r)) rows))) \<and>
         (rows = [] \<longrightarrow> summary st = None))) \<and>
   (\<not> (filter_in_range unit_id \<and> filter_in_range position_id) \<longrightarrow>
      report s unit_id position_id min_salary max_salary = Inl int_too_large)"
proof (intro conjI impI)
  assume "\<not> (filter_in_range unit_id \<and> filter_in_range position_id)"
  then show "report s unit_id position_id min_salary max_salary = Inl int_too_large"
    by (rule report_out_of_range)
next
  let ?F = "filter (matches unit_id position_id min_salary max_salary) (contracts s)"
  let ?st = "\<lparr>count_contracts = length ?F,
              avg_salary = sql_avg (map c_salary ?F),
              avg_cap_hit = sql_avg (map c_cap_hit ?F),
              total_cap_hit = sql_sum (map c_cap_hit ?F)\<rparr>"
  assume "keys_and_references s \<and> filter_in_range unit_id \<and> filter_in_range position_id"
  then have "keys_and_references s" "filter_in_range unit_id" "filter_in_range position_id"
    by simp_all
  from report_in_range [OF this, of min_salary max_salary]
  obtain rows where rep: "report s unit_id position_id min_salary max_salary = Inr (rows, ?st)"
    and perm: "mset (map r_contract rows) = mset ?F"
    by blast
  note agg = aggregates_of_permutation [OF perm]
  have len: "length ?F = length rows"
    using agg(1) by simp
  have e: "(map r_contract rows = []) = (rows = [])"
    by simp
  have a1: "sql_avg (map c_salary ?F) =
      (if rows = [] then None
       else Some (sum_list (map (\<lambda>r. c_salary (r_contract r)) rows) / real (length rows)))"
    unfolding agg(2) [of c_salary, symmetric]
    by (simp add: sql_avg_def o_def)
  have a2: "sql_avg (map c_cap_hit ?F) =
      (if rows = [] then None
       else Some (sum_list (map (\<lambda>r. c_cap_hit (r_contract r)) rows) / real (length rows)))"
    unfolding agg(2) [of c_cap_hit, symmetric]
    by (simp add: sql_avg_def o_def)
  have a3: "sql_sum (map c_cap_hit ?F) =
      (if rows = [] then None
       else Some (sum_list (map (\<lambda>r. c_cap_hit (r_contract r)) rows)))"
    unfolding agg(3) [of c_cap_hit, symmetric]
    by (simp add: sql_sum_def o_def)
  have s0: "rows = [] \<longrightarrow> summary ?st = None"
    using len by (simp add: summary_def)
  have "report s unit_id position_id min_salary max_salary = Inr (rows, ?st) \<and>
         mset (map r_contract rows) = mset ?F \<and>
         count_contracts ?st = length rows \<and>
         avg_salary ?st =
           (if rows = [] then None
            else Some (sum_list (map (\<lambda>r. c_salary (r_contract r)) rows) / real (length rows))) \<and>
         avg_cap_hit ?st =
           (if rows = [] then None
            else Some (sum_list (map (\<lambda>r. c_cap_hit (r_contract r)) rows) / real (length rows))) \<and>
         total_cap_hit ?st =
           (if rows = [] then None
            else Some (sum_list (map (\<lambda>r. c_cap_hit (r_contract r)) rows))) \<and>
         (rows = [] \<longrightarrow> summary ?st = None)"
    using rep perm len a1 a2 a3 s0 by simp
  then show "\<exists>rows st.
         report s unit_id position_id min_salary max_salary = Inr (rows, st) \<and>
         mset (map r_contract rows) =
           mset (filter (matches unit_id position_id min_salary max_salary) (contracts s)) \<and>
         count_contracts st = length rows \<and>
         avg_salary st =
           (if rows = [] then None
            else Some (sum_list (map (\<lambda>r. c_salary (r_contract r)) rows) / real (length rows))) \<and>
         avg_cap_hit st =
           (if rows = [] then None
            else Some (sum_list (map (\<lambda>r. c_cap_hit (r_contract r)) rows) / real (length rows))) \<and>
         total_cap_hit st =
           (if rows = [] then None
            else Some (sum_list (map (\<lambda>r. c_cap_hit (r_contract r)) rows))) \<and>
         (rows = [] \<longrightarrow> summary st = None)"
    by blast
qed

lemma singleton_permutation: "mset xs = mset [x] \<Longrightarrow> xs = [x]"
proof -
  assume a: "mset xs = mset [x]"
  from mset_eq_length [OF a] have "length xs = 1" by simp
  then obtain y where "xs = [y]" by (cases xs) auto
  with a show ?thesis by simp
qed

text \<open>
  On the sample roster: the report for unit 1 with salaries from 5 to 10 lists Sam's
  contract alone, and the statistics are those of that one row; the report for unit 3,
  which has no contract, lists nothing, counts 0 and has no averages and no total; the
  report for a position below the 64-bit range raises.
\<close>

theorem report_statistics_describe_listing_witness:
  "keys_and_references sample_store \<and> filter_in_range (Some 1) \<and> filter_in_range (Some 3) \<and>
   filter_in_range None \<and>
   map r_contract (fst (projr (report sample_store (Some 1) None (Some 5) (Some 10)))) =
     [\<lparr>c_id = 1, c_person = 1, c_position = 1, c_unit = 1, c_start = ''2024-03-01'',
       c_end = ''2026-03-01'', c_years = 2, c_salary = 10, c_cap_hit = 9\<rparr>] \<and>
   snd (projr (report sample_store (Some 1) None (Some 5) (Some 10))) =
     \<lparr>count_contracts = 1, avg_salary = Some 10, avg_cap_hit = Some 9, total_cap_hit = Some 9\<rparr> \<and>
   report sample_store (Some 3) None None None =
     Inr ([], \<lparr>count_contracts = 0, avg_salary = None, avg_cap_hit = None,
                total_cap_hit = None\<rparr>) \<and>
   summary \<lparr>count_contracts = 0, avg_salary = None, avg_cap_hit = None,
            total_cap_hit = None\<rparr> = None \<and>
   \<not> (filter_in_range None \<and> filter_in_range (Some (- 9223372036854775809))) \<and>
   report sample_store None (Some (- 9223372036854775809)) None None =
     Inl (OverflowError ''Python int too large to convert to SQLite INTEGER'')"
proof -
  let ?c1 = "\<lparr>c_id = 1, c_person = 1, c_position = 1, c_unit = 1, c_start = ''2024-03-01'',
       c_end = ''2026-03-01'', c_years = 2, c_salary = 10, c_cap_hit = 9\<rparr>"
  have wf: "keys_and_references sample_store"
    by (simp add: keys_and_references_def sample_fields)
  have r1: "filter_in_range (Some 1)" and r3: "filter_in_range (Some 3)"
    and rn: "filter_in_range None"
    by (simp_all add: filter_in_range_def sqlite_int_def)
  have bad: "\<not> (filter_in_range None \<and> filter_in_range (Some (- 9223372036854775809)))"
    by (simp add: filter_in_range_def sqlite_int_def)
  have m1: "filter (matches (Some 1) None (Some 5) (Some 10)) (contracts sample_store) = [?c1]"
    by (simp add: matches_def sample_fields)
  have m3: "filter (matches (Some 3) None None None) (contracts sample_store) = []"
    by (simp add: matches_def sample_fields)
  from report_statistics_describe_listing
         [of sample_store "Some 1" None "Some 5" "Some 10", THEN conjunct1] wf r1 rn
  obtain rows st where
    rep: "report sample_store (Some 1) None (Some 5) (Some 10) = Inr (rows, st)"
    and perm: "mset (map r_contract rows) =
        mset (filter (matches (Some 1) None (Some 5) (Some 10)) (contracts sample_store))"
    and cnt: "count_contracts st = length rows"
    and av1: "avg_salary st =
           (if rows = [] then None
            else Some (sum_list (map (\<lambda>r. c_salary (r_contract r)) rows) / real (length rows)))"
    and av2: "avg_cap_hit st =
           (if rows = [] then None
            else Some (sum_list (map (\<lambda>r. c_cap_hit (r_contract r)) rows) / real (length rows)))"
    and tot: "total_cap_hit st =
           (if rows = [] then None
            else Some (sum_list (map (\<lambda>r. c_cap_hit (r_contract r)) rows)))"
    by blast
  from perm have "mset (map r_contract rows) = mset [?c1]"
    unfolding m1 .
  then have one: "map r_contract rows = [?c1]"
    by (rule singleton_permutation)
  then obtain r where r: "rows = [r]" "r_contract r = ?c1"
    by auto
  have "st = \<lparr>count_contracts = count_contracts st, avg_salary = avg_salary st,
              avg_cap_hit = avg_cap_hit st, total_cap_hit = total_cap_hit st\<rparr>"
    by simp
  also have "\<dots> = \<lparr>count_contracts = 1, avg_salary = Some 10, avg_cap_hit = Some 9,
                    total_cap_hit = Some 9\<rparr>"
    unfolding cnt av1 av2 tot by (simp add: r)
  finally have st1: "st = \<lparr>count_contracts = 1, avg_salary = Some 10, avg_cap_hit = Some 9,
                    total_cap_hit = Some 9\<rparr>" .
  have a: "map r_contract (fst (projr (report sample_store (Some 1) None (Some 5) (Some 10)))) =
      [?c1]"
    by (simp add: rep one)
  have b: "snd (projr (report sample_store (Some 1) None (Some 5) (Some 10))) =
     \<lparr>count_contracts = 1, avg_salary = Some 10, avg_cap_hit = Some 9, total_cap_hit = Some 9\<rparr>"
    by (simp add: rep st1)
  from report_statistics_describe_listing
         [of sample_store "Some 3" None None None, THEN conjunct1] wf r3 rn
  obtain rows0 st0 where
    rep0: "report sample_store (Some 3) None None None = Inr (rows0, st0)"
    and perm0: "mset (map r_contract rows0) =
        mset (filter (matches (Some 3) None None None) (contracts sample_store))"
    and cnt0: "count_contracts st0 = length rows0"
    and av10: "avg_salary st0 =
           (if rows0 = [] then None
            else Some (sum_list (map (\<lambda>r. c_salary (r_contract r)) rows0) / real (length rows0)))"
    and av20: "avg_cap_hit st0 =
           (if rows0 = [] then None
            else Some (sum_list (map (\<lambda>r. c_cap_hit (r_contract r)) rows0) / real (length rows0)))"
    and tot0: "total_cap_hit st0 =
           (if rows0 = [] then None
            else Some (sum_list (map (\<lambda>r. c_cap_hit (r_contract r)) rows0)))"
    and sum0: "rows0 = [] \<longrightarrow> summary st0 = None"
    by blast
  from perm0 have none: "rows0 = []"
    unfolding m3 by simp
  have "st0 = \<lparr>count_contracts = count_contracts st0, avg_salary = avg_salary st0,
              avg_cap_hit = avg_cap_hit st0, total_cap_hit = total_cap_hit st0\<rparr>"
    by simp
  also have "\<dots> = \<lparr>count_contracts = 0, avg_salary = None, avg_cap_hit = None,
                    total_cap_hit = None\<rparr>"
    unfolding cnt0 av10 av20 tot0 by (simp add: none)
  finally have st00: "st0 = \<lparr>count_contracts = 0, avg_salary = None, avg_cap_hit = None,
                    total_cap_hit = None\<rparr>" .
  have c: "report sample_store (Some 3) None None None =
     Inr ([], \<lparr>count_contracts = 0, avg_salary = None, avg_cap_hit = None,
                total_cap_hit = None\<rparr>)"
    using rep0 none st00 by simp
  have d: "summary \<lparr>count_contracts = 0, avg_salary = None, avg_cap_hit = None,
            total_cap_hit = None\<rparr> = None"
    using sum0 none st00 by simp
  have e: "report sample_store None (Some (- 9223372036854775809)) None None =
     Inl (OverflowError ''Python int too large to convert to SQLite INTEGER'')"
    using report_statistics_describe_listing
         [of sample_store None "Some (- 9223372036854775809)" None None, THEN conjunct2] bad
    by (simp add: int_too_large_def)
  from wf r1 r3 rn a b c d bad e show ?thesis
    by (intro conjI)
qed

end
